theory Spec2Isabelle
  imports Main "HOL-Library.Word"
begin

section \<open>The iTerm2 multi-server daemon (iTermFileDescriptorMultiServer.c)\<close>

text \<open>
  The daemon is a single-threaded C program. Its state is the global array
  \<open>children\<close> (with \<open>numberOfChildren\<close>, the length of the list here) and the
  self-pipe \<open>gPipe\<close>; everything else it does is a call to the operating system
  or to a helper of another file. The model passes the state explicitly, records
  the calls that change the outside (frames handed to \<open>sendmsg\<close>, \<open>close\<close>,
  \<open>unlink\<close>) in a trace, and takes the answer of every outside call from an
  environment, by the number of the call.

  C's \<open>int\<close>, \<open>pid_t\<close> and \<open>ssize_t\<close> are \<open>int\<close> here: the program compares and
  copies them, and the only arithmetic is counting children, so no operation
  wraps around. The flags \<open>terminated\<close>, \<open>willTerminate\<close> and
  \<open>removePreemptively\<close> are only assigned 0 or 1 and tested for being nonzero;
  they are \<open>bool\<close>.
\<close>

subsection \<open>Messages\<close>

text \<open>
  The launch request as this file reads it; \<open>argc\<close> and \<open>envc\<close> are the lengths
  of \<open>argv\<close> and \<open>envp\<close>.
\<close>

record iTermMultiServerRequestLaunch =
  path :: string
  argv :: "string list"
  envp :: "string list"
  columns :: int
  rows :: int
  pixel_width :: int
  pixel_height :: int
  isUTF8 :: int
  pwd :: string
  uniqueId :: "64 word"

record iTermMultiServerRequestHandshake =
  maximumProtocolVersion :: int

record iTermMultiServerRequestWait =
  wait_pid :: int
  removePreemptively :: bool

text \<open>The tagged union a client sends; the tags are the five RPC types.\<close>

datatype iTermMultiServerClientOriginatedMessage =
    ClientHandshake iTermMultiServerRequestHandshake
  | ClientWait iTermMultiServerRequestWait
  | ClientLaunch iTermMultiServerRequestLaunch
  | ClientTermination
  | ClientReportChild

record iTermMultiServerReportChild =
  report_isLast :: bool
  report_pid :: int
  report_path :: string
  report_argv :: "string list"
  report_envp :: "string list"
  report_isUTF8 :: int
  report_pwd :: string
  report_terminated :: bool
  report_tty :: string

text \<open>
  The tagged union the daemon sends. A field the source's initialiser leaves out
  is zero, as C's designated initialisers make it.
\<close>

datatype iTermMultiServerServerOriginatedMessage =
    Handshake (protocolVersion: int) (numChildren: int) (handshake_pid: int)
  | LaunchResponse (launch_status: int) (launch_pid: int) (launch_uniqueId: "64 word")
      (launch_tty: string)
  | WaitResponse (response_pid: int) (response_status: int) (errorNumber: int)
  | ReportChildMessage iTermMultiServerReportChild
  | Termination (termination_pid: int)

subsection \<open>The child registry\<close>

record iTermMultiServerChild =
  messageWithLaunchRequest :: iTermMultiServerRequestLaunch
  pid :: int
  terminated :: bool
  willTerminate :: bool
  masterFd :: int
  status :: int
  tty :: string

subsection \<open>The outside world\<close>

datatype errno = EINTR | EAGAIN | EOTHER

text \<open>
  Modelled from the spec: \<open>iTermFileDescriptorServerSendMessage\<close> and
  \<open>iTermFileDescriptorServerSendMessageAndFileDescriptor\<close> are not in this file.
  The spec's transport writes a frame with one \<open>sendmsg\<close> call and returns the
  bytes written or an error; \<open>ssize\<close> is the \<open>ssize_t\<close> the caller sees, \<open>-1\<close>
  with \<open>errno\<close> set on an error.
\<close>

datatype send_answer = SendWrote nat | SendFailed errno

fun ssize :: "send_answer \<Rightarrow> int" where
  "ssize (SendWrote n) = int n"
| "ssize (SendFailed e) = -1"

text \<open>
  What \<open>forkpty\<close> leaves behind: its return value, the value of the caller's
  local \<open>fd\<close> after the call, and the tty name. \<open>fd\<close> is declared without an
  initialiser and \<open>forkpty\<close> stores the master descriptor only in the parent of a
  successful fork, so after a failure \<open>forkpty_fd\<close> is whatever the variable
  held; the tty buffer was zeroed by \<open>memset\<close> and stays empty.
\<close>

record forkpty_answer =
  forkpty_pid :: int
  forkpty_fd :: int
  forkpty_tty :: string

text \<open>
  \<open>waitpid(pid, &status, WNOHANG)\<close>: a child was reaped (its pid is returned
  and its wait status stored), no child has changed state (0), or an error (-1).
\<close>

datatype waitpid_answer = WaitReaped int int | WaitNothing | WaitFailed errno

fun waitpid_result :: "waitpid_answer \<Rightarrow> int" where
  "waitpid_result (WaitReaped p st) = p"
| "waitpid_result WaitNothing = 0"
| "waitpid_result (WaitFailed e) = -1"

text \<open>A \<open>read\<close> of one byte from the self-pipe, and an \<open>fcntl\<close>, \<open>pipe\<close> or \<open>signal\<close> call.\<close>

datatype read_answer = ReadBytes nat | ReadFailed errno

fun read_result :: "read_answer \<Rightarrow> int" where
  "read_result (ReadBytes n) = int n"
| "read_result (ReadFailed e) = -1"

datatype call_answer = CallOk | CallFailed errno

text \<open>
  Everything the daemon is given from outside this file. The two protocol
  versions are constants of iTermMultiServerProtocol.h, which is not among the
  sources; they are parameters. Each \<open>_rc\<close> field answers the outside call that
  is made as call number \<open>n\<close> of the run.
\<close>

record env =
  iTermMultiServerProtocolVersion1 :: int
  iTermMultiServerProtocolVersionRejected :: int
  getpid :: int
  encode_rc :: "nat \<Rightarrow> int"
  sendmsg_rc :: "nat \<Rightarrow> send_answer"
  forkpty_rc :: "nat \<Rightarrow> forkpty_answer"
  waitpid_rc :: "nat \<Rightarrow> int \<Rightarrow> waitpid_answer"
  read_pipe_rc :: "nat \<Rightarrow> read_answer"
  read_status_rc :: "nat \<Rightarrow> int"
  parse_rc :: "nat \<Rightarrow> int \<times> iTermMultiServerClientOriginatedMessage"
  select_rc :: "nat \<Rightarrow> nat \<Rightarrow> bool"
  accept_rc :: "nat \<Rightarrow> int"
  pipe_rc :: "nat \<Rightarrow> (int \<times> int) option"
  call_rc :: "nat \<Rightarrow> call_answer"

datatype frame = Encoded iTermMultiServerServerOriginatedMessage | EmptyFrame

datatype event =
    SendMsg int frame "int option" send_answer
  | Close int
  | Unlink string

record world =
  children :: "iTermMultiServerChild list"
  gPipe :: "int \<times> int"
  trace :: "event list"
  tick :: nat

text \<open>
  How a call ends: it returns, or the process stops being the daemon that
  returns from it. \<open>assert\<close> aborts the process; in the child of \<open>forkpty\<close> the
  process image is replaced by \<open>iTermExec\<close>; \<open>OutOfFuel\<close> stands for a loop that
  has not finished within the bound given to the model.
\<close>

datatype stop = OutOfFuel | AssertionFailed | ProcessImageReplaced

datatype 'a result = Returns 'a | Stopped stop

definition iTermMultiServerProtocolEncodeMessageFromServer ::
  "env \<Rightarrow> world \<Rightarrow> iTermMultiServerServerOriginatedMessage \<Rightarrow> int \<times> world" where
  "iTermMultiServerProtocolEncodeMessageFromServer e w message =
     (encode_rc e (tick w), w\<lparr>tick := Suc (tick w)\<rparr>)"

definition iTermFileDescriptorServerSendMessage ::
  "env \<Rightarrow> world \<Rightarrow> int \<Rightarrow> frame \<Rightarrow> send_answer \<times> world" where
  "iTermFileDescriptorServerSendMessage e w fd fr =
     (let a = sendmsg_rc e (tick w)
      in (a, w\<lparr>trace := trace w @ [SendMsg fd fr None a], tick := Suc (tick w)\<rparr>))"

definition iTermFileDescriptorServerSendMessageAndFileDescriptor ::
  "env \<Rightarrow> world \<Rightarrow> int \<Rightarrow> frame \<Rightarrow> int \<Rightarrow> send_answer \<times> world" where
  "iTermFileDescriptorServerSendMessageAndFileDescriptor e w fd fr fdToSend =
     (let a = sendmsg_rc e (tick w)
      in (a, w\<lparr>trace := trace w @ [SendMsg fd fr (Some fdToSend) a], tick := Suc (tick w)\<rparr>))"

definition close_fd :: "world \<Rightarrow> int \<Rightarrow> world" where
  "close_fd w fd = w\<lparr>trace := trace w @ [Close fd]\<rparr>"

subsection \<open>Inspect and mutate children\<close>

fun reportable_from :: "iTermMultiServerChild list \<Rightarrow> int \<Rightarrow> int" where
  "reportable_from [] n = n"
| "reportable_from (c # cs) n =
     (if willTerminate c then reportable_from cs n else reportable_from cs (n + 1))"

definition GetNumberOfReportableChildren :: "world \<Rightarrow> int" where
  "GetNumberOfReportableChildren w = reportable_from (children w) 0"

text \<open>
  Modelled from the spec: \<open>AddChild\<close> copies the launch request by encoding it
  and parsing it back with the codec of iTermMultiServerProtocol.c, which is not
  among the sources, and asserts that both steps succeed. The spec says the
  registry deep-copies the launch record, so the copy has the fields of the
  original.
\<close>

definition copy_launch_request ::
  "iTermMultiServerRequestLaunch \<Rightarrow> iTermMultiServerRequestLaunch" where
  "copy_launch_request launch = launch"

definition AddChild ::
  "iTermMultiServerRequestLaunch \<Rightarrow> int \<Rightarrow> string \<Rightarrow> int \<Rightarrow> world \<Rightarrow> world" where
  "AddChild launch fd ttyName forkPid w =
     w\<lparr>children := children w @
        [\<lparr>messageWithLaunchRequest = copy_launch_request launch,
          pid = forkPid,
          terminated = False,
          willTerminate = False,
          masterFd = fd,
          status = 0,
          tty = ttyName\<rparr>]\<rparr>"

text \<open>
  \<open>RemoveChild\<close> asserts that the index is in range, then frees the whole array
  when it holds one child and otherwise moves the later children down by one.
  Both branches leave the list without its element \<open>i\<close>.
\<close>

definition RemoveChild :: "int \<Rightarrow> world \<Rightarrow> world result" where
  "RemoveChild i w =
     (if \<not> (0 \<le> i \<and> i < int (length (children w))) then Stopped AssertionFailed
      else if length (children w) = 1 then Returns (w\<lparr>children := []\<rparr>)
      else Returns (w\<lparr>children := take (nat i) (children w) @ drop (nat i + 1) (children w)\<rparr>))"

subsection \<open>Wait\<close>

fun index_by_pid_from :: "iTermMultiServerChild list \<Rightarrow> int \<Rightarrow> int \<Rightarrow> int" where
  "index_by_pid_from [] p i = -1"
| "index_by_pid_from (c # cs) p i = (if pid c = p then i else index_by_pid_from cs p (i + 1))"

definition GetChildIndexByPID :: "world \<Rightarrow> int \<Rightarrow> int" where
  "GetChildIndexByPID w p = index_by_pid_from (children w) p 0"

definition HandleWait ::
  "env \<Rightarrow> world \<Rightarrow> int \<Rightarrow> iTermMultiServerRequestWait \<Rightarrow> (int \<times> world) result" where
  "HandleWait e w fd wait =
     (let childIndex = GetChildIndexByPID w (wait_pid wait);
          (st, errorNum, w1) =
            (if childIndex < 0 then (0, -1, w)
             else if \<not> terminated (children w ! nat childIndex) then
               (if removePreemptively wait then
                  (let wa = w\<lparr>children := (children w)[nat childIndex :=
                                (children w ! nat childIndex)\<lparr>willTerminate := True\<rparr>]\<rparr>;
                       wb = close_fd wa (masterFd (children wa ! nat childIndex));
                       wc = wb\<lparr>children := (children wb)[nat childIndex :=
                                (children wb ! nat childIndex)\<lparr>masterFd := -1\<rparr>]\<rparr>
                   in (0, 1, wc))
                else (0, -2, w))
             else (status (children w ! nat childIndex), 0, w));
          message = WaitResponse (wait_pid wait) st errorNum;
          (rc, w2) = iTermMultiServerProtocolEncodeMessageFromServer e w1 message
      in if rc \<noteq> 0 then Returns (-1, w2)
         else
           (let (bytes, w3) = iTermFileDescriptorServerSendMessage e w2 fd (Encoded message)
            in if ssize bytes < 0 then Returns (-1, w3)
               else if errorNum = 0 then
                 (case RemoveChild childIndex w3 of
                    Stopped s \<Rightarrow> Stopped s
                  | Returns w4 \<Rightarrow> Returns (0, w4))
               else Returns (0, w3)))"

subsection \<open>Launch\<close>

text \<open>
  \<open>Launch\<close> returns the descriptor (or -1) together with \<open>forkState->pid\<close> and
  \<open>ttyStatePtr->tty\<close>. The value stored through \<open>errorPtr\<close> is left out: the one
  caller never reads it. In the child (\<open>forkpty\<close> returned 0) \<open>iTermExec\<close>
  replaces the process image.
\<close>

definition Launch ::
  "env \<Rightarrow> world \<Rightarrow> iTermMultiServerRequestLaunch \<Rightarrow> (int \<times> int \<times> string \<times> world) result" where
  "Launch e w launch =
     (let a = forkpty_rc e (tick w);
          w1 = w\<lparr>tick := Suc (tick w)\<rparr>
      in if forkpty_pid a = 0 then Stopped ProcessImageReplaced
         else if forkpty_pid a = 1 then Returns (-1, forkpty_pid a, forkpty_tty a, w1)
         else Returns (forkpty_fd a, forkpty_pid a, forkpty_tty a, w1))"

definition SendLaunchResponse ::
  "env \<Rightarrow> world \<Rightarrow> int \<Rightarrow> int \<Rightarrow> int \<Rightarrow> int \<Rightarrow> string \<Rightarrow> 64 word \<Rightarrow> int \<times> world" where
  "SendLaunchResponse e w fd st p fdToSend ttyName uid =
     (let message = LaunchResponse st p uid ttyName;
          (rc, w1) = iTermMultiServerProtocolEncodeMessageFromServer e w message
      in if rc \<noteq> 0 then (-1, w1)
         else if fdToSend \<ge> 0 then
           (let (r, w2) = iTermFileDescriptorServerSendMessageAndFileDescriptor
                            e w1 fd (Encoded message) fdToSend
            in (if ssize r = -1 then 1 else 0, w2))
         else
           (let (r, w2) = iTermFileDescriptorServerSendMessage e w1 fd (Encoded message)
            in (if ssize r = -1 then 1 else 0, w2)))"

definition HandleLaunchRequest ::
  "env \<Rightarrow> world \<Rightarrow> int \<Rightarrow> iTermMultiServerRequestLaunch \<Rightarrow> (int \<times> world) result" where
  "HandleLaunchRequest e w fd launch =
     (case Launch e w launch of
        Stopped s \<Rightarrow> Stopped s
      | Returns (fdMaster, forkPid, ttyName, w1) \<Rightarrow>
          if fdMaster < 0 then
            Returns (SendLaunchResponse e w1 fd (-1) 0 (-1) [] (uniqueId launch))
          else
            Returns (SendLaunchResponse e (AddChild launch fdMaster ttyName forkPid w1)
                       fd 0 forkPid fdMaster ttyName (uniqueId launch)))"

subsection \<open>Report termination, report child\<close>

definition ReportTermination :: "env \<Rightarrow> world \<Rightarrow> int \<Rightarrow> int \<Rightarrow> int \<times> world" where
  "ReportTermination e w fd p =
     (let message = Termination p;
          (rc, w1) = iTermMultiServerProtocolEncodeMessageFromServer e w message
      in if rc \<noteq> 0 then (-1, w1)
         else
           (let (r, w2) = iTermFileDescriptorServerSendMessage e w1 fd (Encoded message)
            in (if ssize r = -1 then 1 else 0, w2)))"

definition PopulateReportChild ::
  "iTermMultiServerChild \<Rightarrow> bool \<Rightarrow> iTermMultiServerReportChild" where
  "PopulateReportChild child isLast =
     \<lparr>report_isLast = isLast,
      report_pid = pid child,
      report_path = path (messageWithLaunchRequest child),
      report_argv = argv (messageWithLaunchRequest child),
      report_envp = envp (messageWithLaunchRequest child),
      report_isUTF8 = isUTF8 (messageWithLaunchRequest child),
      report_pwd = pwd (messageWithLaunchRequest child),
      report_terminated = terminated child,
      report_tty = tty child\<rparr>"

text \<open>After a failed send \<open>ReportChild\<close> asserts that \<open>errno\<close> is not \<open>EAGAIN\<close>.\<close>

definition ReportChild ::
  "env \<Rightarrow> world \<Rightarrow> int \<Rightarrow> iTermMultiServerChild \<Rightarrow> bool \<Rightarrow> (int \<times> world) result" where
  "ReportChild e w fd child isLast =
     (let message = ReportChildMessage (PopulateReportChild child isLast);
          (rc, w1) = iTermMultiServerProtocolEncodeMessageFromServer e w message
      in if rc \<noteq> 0 then Returns (-1, w1)
         else
           (let (bytes, w2) = iTermFileDescriptorServerSendMessageAndFileDescriptor
                                e w1 fd (Encoded message) (masterFd child)
            in if ssize bytes < 0 then
                 (if bytes = SendFailed EAGAIN then Stopped AssertionFailed
                  else Returns (1, w2))
               else Returns (0, w2)))"

subsection \<open>Termination handling\<close>

text \<open>
  \<open>WaitPidNoHang\<close> repeats \<open>waitpid\<close> while it fails with \<open>EINTR\<close>. The answer
  is returned whole; the caller's \<open>statusOut\<close> is \<open>&children[i].status\<close>, and the
  loop in \<open>WaitForAllProcesses\<close> stores the status there.
\<close>

fun WaitPidNoHang :: "nat \<Rightarrow> env \<Rightarrow> world \<Rightarrow> int \<Rightarrow> (waitpid_answer \<times> world) result" where
  "WaitPidNoHang 0 e w p = Stopped OutOfFuel"
| "WaitPidNoHang (Suc n) e w p =
     (let a = waitpid_rc e (tick w) p;
          w1 = w\<lparr>tick := Suc (tick w)\<rparr>
      in if waitpid_result a < 0 \<and> a = WaitFailed EINTR then WaitPidNoHang n e w1 p
         else Returns (a, w1))"

text \<open>The loop that empties the self-pipe, one byte per \<open>read\<close>.\<close>

fun empty_pipe :: "nat \<Rightarrow> env \<Rightarrow> world \<Rightarrow> world result" where
  "empty_pipe 0 e w = Stopped OutOfFuel"
| "empty_pipe (Suc n) e w =
     (let a = read_pipe_rc e (tick w);
          w1 = w\<lparr>tick := Suc (tick w)\<rparr>
      in if read_result a > 0 \<or> (read_result a = -1 \<and> a = ReadFailed EINTR)
         then empty_pipe n e w1
         else Returns w1)"

lemma WaitPidNoHang_children:
  "WaitPidNoHang n e w p = Returns (a, w1) \<Longrightarrow> children w1 = children w"
  by (induction n arbitrary: w) (auto simp: Let_def split: if_splits)

text \<open>The \<open>for\<close> loop of \<open>WaitForAllProcesses\<close> over the children, from index \<open>i\<close>.\<close>

function wait_loop :: "nat \<Rightarrow> env \<Rightarrow> int \<Rightarrow> nat \<Rightarrow> world \<Rightarrow> (int \<times> world) result" where
  "wait_loop fuel e connectionFd i w =
     (if i < length (children w) then
        (if terminated (children w ! i) then wait_loop fuel e connectionFd (i + 1) w
         else
           (case WaitPidNoHang fuel e w (pid (children w ! i)) of
              Stopped s \<Rightarrow> Stopped s
            | Returns (a, w1) \<Rightarrow>
                (let w2 = (case a of
                             WaitReaped p st \<Rightarrow>
                               w1\<lparr>children := (children w1)[i := (children w1 ! i)\<lparr>status := st\<rparr>]\<rparr>
                           | WaitNothing \<Rightarrow> w1
                           | WaitFailed err \<Rightarrow> w1)
                 in if waitpid_result a > 0 then
                      (let w3 = w2\<lparr>children :=
                                   (children w2)[i := (children w2 ! i)\<lparr>terminated := True\<rparr>]\<rparr>
                       in if \<not> willTerminate (children w3 ! i) \<and> connectionFd \<ge> 0 then
                            (case ReportTermination e w3 connectionFd (pid (children w3 ! i)) of
                               (r, w4) \<Rightarrow>
                                 if r \<noteq> 0 then Returns (-1, w4)
                                 else wait_loop fuel e connectionFd (i + 1) w4)
                          else wait_loop fuel e connectionFd (i + 1) w3)
                    else wait_loop fuel e connectionFd (i + 1) w2)))
      else Returns (0, w))"
  by pat_completeness auto
termination
proof (relation "measure (\<lambda>(fuel, e, connectionFd, i, w). length (children w) - i)")
  show "wf (measure (\<lambda>(fuel, e, connectionFd, i, w). length (children w) - i))"
    by simp
next
  fix fuel :: nat and e :: env and connectionFd :: int and i :: nat and w :: world
  assume "i < length (children w)" "terminated (children w ! i)"
  then show "((fuel, e, connectionFd, i + 1, w), (fuel, e, connectionFd, i, w))
               \<in> measure (\<lambda>(fuel, e, connectionFd, i, w). length (children w) - i)"
    by simp
qed (auto dest!: WaitPidNoHang_children
       simp: ReportTermination_def iTermMultiServerProtocolEncodeMessageFromServer_def
             iTermFileDescriptorServerSendMessage_def Let_def
       split: if_splits waitpid_answer.splits)

text \<open>The equation of \<open>wait_loop\<close> calls itself; it is unfolded by hand, one step at a time.\<close>

declare wait_loop.simps [simp del]

definition WaitForAllProcesses :: "nat \<Rightarrow> env \<Rightarrow> world \<Rightarrow> int \<Rightarrow> (int \<times> world) result" where
  "WaitForAllProcesses fuel e w connectionFd =
     (case empty_pipe fuel e w of
        Stopped s \<Rightarrow> Stopped s
      | Returns w1 \<Rightarrow> wait_loop fuel e connectionFd 0 w1)"

subsection \<open>Report children, handshake\<close>

text \<open>
  The loop of \<open>ReportChildren\<close> runs \<open>i\<close> from \<open>numberOfChildren - 1\<close> down to 0;
  \<open>report_loop\<close> at \<open>Suc i\<close> is the iteration for index \<open>i\<close>, and at 0 the loop
  has ended.
\<close>

fun report_loop ::
  "env \<Rightarrow> int \<Rightarrow> int \<Rightarrow> nat \<Rightarrow> int \<Rightarrow> world \<Rightarrow> (int \<times> world) result" where
  "report_loop e fd numberOfReportableChildren 0 numberSent w = Returns (0, w)"
| "report_loop e fd numberOfReportableChildren (Suc i) numberSent w =
     (if willTerminate (children w ! i)
      then report_loop e fd numberOfReportableChildren i numberSent w
      else
        (case ReportChild e w fd (children w ! i)
                (numberSent + 1 = numberOfReportableChildren) of
           Stopped s \<Rightarrow> Stopped s
         | Returns (r, w1) \<Rightarrow>
             if r \<noteq> 0 then Returns (-1, w1)
             else report_loop e fd numberOfReportableChildren i (numberSent + 1) w1))"

definition ReportChildren :: "env \<Rightarrow> world \<Rightarrow> int \<Rightarrow> (int \<times> world) result" where
  "ReportChildren e w fd =
     report_loop e fd (GetNumberOfReportableChildren w) (length (children w)) 0 w"

definition HandleHandshake ::
  "env \<Rightarrow> world \<Rightarrow> int \<Rightarrow> iTermMultiServerRequestHandshake \<Rightarrow> (int \<times> world) result" where
  "HandleHandshake e w fd handshake =
     (if maximumProtocolVersion handshake < iTermMultiServerProtocolVersion1 e
      then Returns (-1, w)
      else
        (let message = Handshake (iTermMultiServerProtocolVersion1 e)
                         (GetNumberOfReportableChildren w) (getpid e);
             (rc, w1) = iTermMultiServerProtocolEncodeMessageFromServer e w message
         in if rc \<noteq> 0 then Returns (-1, w1)
            else
              (let (bytes, w2) = iTermFileDescriptorServerSendMessage e w1 fd (Encoded message)
               in if ssize bytes < 0 then Returns (-1, w2)
                  else ReportChildren e w2 fd)))"

subsection \<open>Requests\<close>

text \<open>
  \<open>ReadRequest\<close> reads a frame and parses it; a nonzero status of either step is
  its result (\<open>Inl\<close>), and only a zero status leaves a request in \<open>out\<close>.
\<close>

definition ReadRequest ::
  "env \<Rightarrow> world \<Rightarrow> int \<Rightarrow> (int + iTermMultiServerClientOriginatedMessage) \<times> world" where
  "ReadRequest e w fd =
     (let st = read_status_rc e (tick w);
          w1 = w\<lparr>tick := Suc (tick w)\<rparr>
      in if st \<noteq> 0 then (Inl st, w1)
         else
           (let (st2, out) = parse_rc e (tick w1);
                w2 = w1\<lparr>tick := Suc (tick w1)\<rparr>
            in if st2 \<noteq> 0 then (Inl st2, w2) else (Inr out, w2)))"

text \<open>
  The dispatcher keeps the handler's return value in the local \<open>result\<close> and
  ends with \<open>return 0\<close>.
\<close>

definition ReadAndHandleRequest ::
  "env \<Rightarrow> world \<Rightarrow> int \<Rightarrow> int \<Rightarrow> (int \<times> world) result" where
  "ReadAndHandleRequest e w readFd writeFd =
     (case ReadRequest e w readFd of
        (Inl st, w1) \<Rightarrow> Returns (-1, w1)
      | (Inr request, w1) \<Rightarrow>
          (case (case request of
                   ClientHandshake handshake \<Rightarrow> HandleHandshake e w1 writeFd handshake
                 | ClientWait wait \<Rightarrow> HandleWait e w1 writeFd wait
                 | ClientLaunch launch \<Rightarrow> HandleLaunchRequest e w1 writeFd launch
                 | ClientTermination \<Rightarrow> Returns (0, w1)
                 | ClientReportChild \<Rightarrow> Returns (0, w1)) of
             Stopped s \<Rightarrow> Stopped s
           | Returns (handlerResult, w2) \<Rightarrow> Returns (0, w2)))"

subsection \<open>Core\<close>

definition AcceptAndReject :: "env \<Rightarrow> world \<Rightarrow> int \<Rightarrow> world" where
  "AcceptAndReject e w socket =
     (let fd = accept_rc e (tick w);
          w1 = w\<lparr>tick := Suc (tick w)\<rparr>
      in if fd < 0 then w1
         else
           (let message = Handshake (iTermMultiServerProtocolVersionRejected e) 0 0;
                (rc, w2) = iTermMultiServerProtocolEncodeMessageFromServer e w1 message
            in if rc \<noteq> 0 then close_fd w2 fd
               else
                 (let (r, w3) = iTermFileDescriptorServerSendMessage e w2 fd (Encoded message)
                  in close_fd w3 fd)))"

text \<open>
  One iteration of \<open>SelectLoop\<close> per unit of fuel. \<open>select_rc\<close> gives
  \<open>results\<close> for the descriptors \<open>gPipe[0]\<close>, \<open>acceptFd\<close>, \<open>readFd\<close> in that
  order. The first component of each inner result says whether the iteration
  ends in \<open>break\<close>.
\<close>

fun SelectLoop :: "nat \<Rightarrow> env \<Rightarrow> world \<Rightarrow> int \<Rightarrow> int \<Rightarrow> int \<Rightarrow> world result" where
  "SelectLoop 0 e w acceptFd writeFd readFd = Stopped OutOfFuel"
| "SelectLoop (Suc n) e w acceptFd writeFd readFd =
     (let results = select_rc e (tick w);
          w0 = w\<lparr>tick := Suc (tick w)\<rparr>
      in case (if results 2 then
                 (case ReadAndHandleRequest e w0 readFd writeFd of
                    Stopped s \<Rightarrow> Stopped s
                  | Returns (r, w1) \<Rightarrow>
                      if r \<noteq> 0 then
                        (if results 0 then
                           (case WaitForAllProcesses (Suc n) e w1 (-1) of
                              Stopped s \<Rightarrow> Stopped s
                            | Returns (r2, w2) \<Rightarrow> Returns (True, w2))
                         else Returns (True, w1))
                      else Returns (False, w1))
               else Returns (False, w0)) of
           Stopped s \<Rightarrow> Stopped s
         | Returns (leave, w1) \<Rightarrow>
             if leave then Returns (close_fd w1 writeFd)
             else
               (case (if results 0 then
                        (case WaitForAllProcesses (Suc n) e w1 writeFd of
                           Stopped s \<Rightarrow> Stopped s
                         | Returns (r, w2) \<Rightarrow> Returns (r \<noteq> 0, w2))
                      else Returns (False, w1)) of
                  Stopped s \<Rightarrow> Stopped s
                | Returns (leave2, w2) \<Rightarrow>
                    if leave2 then Returns (close_fd w2 writeFd)
                    else SelectLoop n e
                           (if results 1 then AcceptAndReject e w2 acceptFd else w2)
                           acceptFd writeFd readFd))"

definition MakeAndSendPipe :: "env \<Rightarrow> world \<Rightarrow> int \<Rightarrow> int \<times> world" where
  "MakeAndSendPipe e w unixDomainSocketFd =
     (let w1 = w\<lparr>tick := Suc (tick w)\<rparr>
      in case pipe_rc e (tick w) of
           None \<Rightarrow> (-1, w1)
         | Some (readPipe, writePipe) \<Rightarrow>
             (let (rc, w2) = iTermFileDescriptorServerSendMessageAndFileDescriptor
                               e w1 unixDomainSocketFd EmptyFrame writePipe
              in if ssize rc = -1 then (-1, close_fd (close_fd w2 readPipe) writePipe)
                 else (readPipe, close_fd w2 writePipe)))"

text \<open>
  One iteration of the loop of \<open>iTermMultiServerAccept\<close> per unit of fuel;
  here \<open>results\<close> is for \<open>socketFd\<close>, \<open>gPipe[0]\<close> in that order. The loop
  ends only with a descriptor other than -1.
\<close>

fun iTermMultiServerAccept :: "nat \<Rightarrow> env \<Rightarrow> world \<Rightarrow> int \<Rightarrow> (int \<times> world) result" where
  "iTermMultiServerAccept 0 e w socketFd = Stopped OutOfFuel"
| "iTermMultiServerAccept (Suc n) e w socketFd =
     (let results = select_rc e (tick w);
          w0 = w\<lparr>tick := Suc (tick w)\<rparr>
      in case (if results 1 then
                 (case WaitForAllProcesses (Suc n) e w0 (-1) of
                    Stopped s \<Rightarrow> Stopped s
                  | Returns (r, w1) \<Rightarrow> Returns w1)
               else Returns w0) of
           Stopped s \<Rightarrow> Stopped s
         | Returns w1 \<Rightarrow>
             if results 0 then
               (let connectionFd = accept_rc e (tick w1);
                    w2 = w1\<lparr>tick := Suc (tick w1)\<rparr>
                in if connectionFd \<noteq> -1 then Returns (connectionFd, w2)
                   else iTermMultiServerAccept n e w2 socketFd)
             else iTermMultiServerAccept n e w1 socketFd)"

subsection \<open>Bootstrap\<close>

text \<open>
  \<open>MakeNonBlocking\<close> and \<open>MakeBlocking\<close> read the flags with one \<open>fcntl\<close> and
  repeat the \<open>fcntl\<close> that sets them while it fails with \<open>EINTR\<close>. The flags
  themselves are not part of the model, so the two have the same shape.
\<close>

fun set_flags_loop :: "nat \<Rightarrow> env \<Rightarrow> world \<Rightarrow> (call_answer \<times> world) result" where
  "set_flags_loop 0 e w = Stopped OutOfFuel"
| "set_flags_loop (Suc n) e w =
     (let a = call_rc e (tick w);
          w1 = w\<lparr>tick := Suc (tick w)\<rparr>
      in if a = CallFailed EINTR then set_flags_loop n e w1 else Returns (a, w1))"

definition MakeNonBlocking :: "nat \<Rightarrow> env \<Rightarrow> world \<Rightarrow> int \<Rightarrow> (int \<times> world) result" where
  "MakeNonBlocking fuel e w fd =
     (case set_flags_loop fuel e (w\<lparr>tick := Suc (tick w)\<rparr>) of
        Stopped s \<Rightarrow> Stopped s
      | Returns (a, w1) \<Rightarrow> Returns (if a = CallOk then 0 else 1, w1))"

definition MakeBlocking :: "nat \<Rightarrow> env \<Rightarrow> world \<Rightarrow> int \<Rightarrow> (int \<times> world) result" where
  "MakeBlocking fuel e w fd =
     (case set_flags_loop fuel e (w\<lparr>tick := Suc (tick w)\<rparr>) of
        Stopped s \<Rightarrow> Stopped s
      | Returns (a, w1) \<Rightarrow> Returns (if a = CallOk then 0 else 1, w1))"

text \<open>
  The \<open>do ... while\<close> of \<open>MainLoop\<close>, one iteration per unit of fuel: serve the
  attached client, return when no reportable child is left, otherwise accept the
  next client and hand it a pipe.
\<close>

fun main_loop :: "nat \<Rightarrow> env \<Rightarrow> world \<Rightarrow> int \<Rightarrow> int \<Rightarrow> int \<Rightarrow> world result" where
  "main_loop 0 e w acceptFd writeFd readFd = Stopped OutOfFuel"
| "main_loop (Suc n) e w acceptFd writeFd readFd =
     (case (if writeFd \<ge> 0 \<and> readFd \<ge> 0
            then SelectLoop (Suc n) e w acceptFd writeFd readFd
            else Returns w) of
        Stopped s \<Rightarrow> Stopped s
      | Returns w1 \<Rightarrow>
          if GetNumberOfReportableChildren w1 = 0 then Returns w1
          else
            (case iTermMultiServerAccept (Suc n) e w1 acceptFd of
               Stopped s \<Rightarrow> Stopped s
             | Returns (newWriteFd, w2) \<Rightarrow>
                 if newWriteFd = -1 then Returns w2
                 else
                   (case MakeAndSendPipe e w2 newWriteFd of
                      (newReadFd, w3) \<Rightarrow>
                        (case MakeBlocking (Suc n) e w3 newWriteFd of
                           Stopped s \<Rightarrow> Stopped s
                         | Returns (r1, w4) \<Rightarrow>
                             (case MakeBlocking (Suc n) e w4 newReadFd of
                                Stopped s \<Rightarrow> Stopped s
                              | Returns (r2, w5) \<Rightarrow>
                                  if newWriteFd \<ge> 0 \<and> newReadFd \<ge> 0
                                  then main_loop n e w5 acceptFd newWriteFd newReadFd
                                  else Returns w5)))))"

definition MainLoop ::
  "nat \<Rightarrow> env \<Rightarrow> world \<Rightarrow> string \<Rightarrow> int \<Rightarrow> int \<Rightarrow> int \<Rightarrow> world result" where
  "MainLoop fuel e w socketPath acceptFd initialWriteFd initialReadFd =
     (if \<not> (acceptFd \<ge> 0 \<and> acceptFd \<noteq> initialWriteFd \<and> initialWriteFd \<ge> 0
             \<and> initialReadFd \<ge> 0)
      then Stopped AssertionFailed
      else
        (case MakeBlocking fuel e w initialWriteFd of
           Stopped s \<Rightarrow> Stopped s
         | Returns (r1, w1) \<Rightarrow>
             (case MakeBlocking fuel e w1 initialReadFd of
                Stopped s \<Rightarrow> Stopped s
              | Returns (r2, w2) \<Rightarrow>
                  main_loop fuel e w2 acceptFd initialWriteFd initialReadFd)))"

definition MakeStandardFileDescriptorsNonBlocking ::
  "nat \<Rightarrow> env \<Rightarrow> world \<Rightarrow> (int \<times> world) result" where
  "MakeStandardFileDescriptorsNonBlocking fuel e w =
     (case MakeNonBlocking fuel e w 0 of
        Stopped s \<Rightarrow> Stopped s
      | Returns (r0, w0) \<Rightarrow>
          if r0 \<noteq> 0 then Returns (1, w0)
          else
            (case MakeBlocking fuel e w0 1 of
               Stopped s \<Rightarrow> Stopped s
             | Returns (r1, w1) \<Rightarrow>
                 if r1 \<noteq> 0 then Returns (1, w1)
                 else
                   (case MakeBlocking fuel e w1 2 of
                      Stopped s \<Rightarrow> Stopped s
                    | Returns (r2, w2) \<Rightarrow>
                        if r2 \<noteq> 0 then Returns (1, w2)
                        else
                          (case MakeBlocking fuel e w2 3 of
                             Stopped s \<Rightarrow> Stopped s
                           | Returns (r3, w3) \<Rightarrow>
                               if r3 \<noteq> 0 then Returns (1, w3) else Returns (0, w3)))))"

definition MakePipe :: "nat \<Rightarrow> env \<Rightarrow> world \<Rightarrow> (int \<times> world) result" where
  "MakePipe fuel e w =
     (let w1 = w\<lparr>tick := Suc (tick w)\<rparr>
      in case pipe_rc e (tick w) of
           None \<Rightarrow> Returns (1, w1)
         | Some fds \<Rightarrow>
             (case MakeNonBlocking fuel e (w1\<lparr>gPipe := fds\<rparr>) (fst fds) of
                Stopped s \<Rightarrow> Stopped s
              | Returns (r0, w2) \<Rightarrow>
                  if r0 \<noteq> 0 then Returns (2, w2)
                  else
                    (case MakeNonBlocking fuel e w2 (snd fds) of
                       Stopped s \<Rightarrow> Stopped s
                     | Returns (r1, w3) \<Rightarrow>
                         if r1 \<noteq> 0 then Returns (2, w3) else Returns (0, w3))))"

text \<open>\<open>signal(SIGHUP)\<close>, \<open>sigprocmask\<close>, \<open>signal(SIGCHLD)\<close>, each one outside call.\<close>

definition InitializeSignals :: "env \<Rightarrow> world \<Rightarrow> int \<times> world" where
  "InitializeSignals e w =
     (let w1 = w\<lparr>tick := Suc (tick w)\<rparr>
      in if call_rc e (tick w) \<noteq> CallOk then (1, w1)
         else
           (let w2 = w1\<lparr>tick := Suc (tick w1)\<rparr>
            in if call_rc e (tick w1) \<noteq> CallOk then (1, w2)
               else
                 (let w3 = w2\<lparr>tick := Suc (tick w2)\<rparr>
                  in if call_rc e (tick w2) \<noteq> CallOk then (1, w3) else (0, w3))))"

definition Initialize :: "nat \<Rightarrow> env \<Rightarrow> world \<Rightarrow> string \<Rightarrow> (int \<times> world) result" where
  "Initialize fuel e w socketPath =
     (case MakeStandardFileDescriptorsNonBlocking fuel e w of
        Stopped s \<Rightarrow> Stopped s
      | Returns (r0, w0) \<Rightarrow>
          if r0 \<noteq> 0 then Returns (1, w0)
          else
            (case MakePipe fuel e w0 of
               Stopped s \<Rightarrow> Stopped s
             | Returns (r1, w1) \<Rightarrow>
                 if r1 \<noteq> 0 then Returns (1, w1)
                 else
                   (case InitializeSignals e w1 of
                      (r2, w2) \<Rightarrow> if r2 \<noteq> 0 then Returns (1, w2) else Returns (0, w2))))"

text \<open>
  \<open>iTermFileDescriptorMultiServerRun\<close>: the window-server calls have no effect
  the daemon reads back; \<open>signal(SIGPIPE, SIG_IGN)\<close> is one outside call whose
  result is dropped. After \<open>Initialize\<close> and, if it succeeded, \<open>MainLoop\<close>, the
  socket path is unlinked and 1 is returned.
\<close>

definition iTermFileDescriptorMultiServerRun ::
  "nat \<Rightarrow> env \<Rightarrow> world \<Rightarrow> string \<Rightarrow> int \<Rightarrow> int \<Rightarrow> int \<Rightarrow> (int \<times> world) result" where
  "iTermFileDescriptorMultiServerRun fuel e w socketPath socketFd writeFD readFD =
     (case Initialize fuel e (w\<lparr>tick := Suc (tick w)\<rparr>) socketPath of
        Stopped s \<Rightarrow> Stopped s
      | Returns (rc, w1) \<Rightarrow>
          (case (if rc \<noteq> 0 then Returns w1
                 else MainLoop fuel e w1 socketPath socketFd writeFD readFD) of
             Stopped s \<Rightarrow> Stopped s
           | Returns w2 \<Rightarrow> Returns (1, w2\<lparr>trace := trace w2 @ [Unlink socketPath]\<rparr>)))"

text \<open>
  \<open>main\<close> asserts \<open>argc == 2\<close>, runs the server on descriptors 0, 1 and 3 and
  returns 1, which is the exit status of the process.
\<close>

definition main :: "nat \<Rightarrow> env \<Rightarrow> world \<Rightarrow> string list \<Rightarrow> (int \<times> world) result" where
  "main fuel e w args =
     (if length args \<noteq> 2 then Stopped AssertionFailed
      else
        (case iTermFileDescriptorMultiServerRun fuel e w (args ! 1) 0 1 3 of
           Stopped s \<Rightarrow> Stopped s
         | Returns (r, w1) \<Rightarrow> Returns (1, w1)))"

subsection \<open>A concrete environment and registry\<close>

text \<open>
  An environment in which every outside call succeeds and nothing is pending:
  the codec encodes, \<open>sendmsg\<close> writes, \<open>forkpty\<close> gives child 42 on descriptor
  7, no child has exited, the self-pipe is empty and no descriptor is readable.
  The examples below change one answer at a time.
\<close>

definition example_launch :: iTermMultiServerRequestLaunch where
  "example_launch =
     \<lparr>path = ''/bin/true'', argv = [''true''], envp = [], columns = 80, rows = 24,
      pixel_width = 0, pixel_height = 0, isUTF8 = 1, pwd = ''/'', uniqueId = 42\<rparr>"

definition quiet_env :: env where
  "quiet_env =
     \<lparr>iTermMultiServerProtocolVersion1 = 1,
      iTermMultiServerProtocolVersionRejected = -1,
      getpid = 100,
      encode_rc = (\<lambda>n. 0),
      sendmsg_rc = (\<lambda>n. SendWrote 1),
      forkpty_rc = (\<lambda>n. \<lparr>forkpty_pid = 42, forkpty_fd = 7, forkpty_tty = ''/dev/ttys001''\<rparr>),
      waitpid_rc = (\<lambda>n p. WaitNothing),
      read_pipe_rc = (\<lambda>n. ReadFailed EAGAIN),
      read_status_rc = (\<lambda>n. 0),
      parse_rc = (\<lambda>n. (0, ClientTermination)),
      select_rc = (\<lambda>n k. False),
      accept_rc = (\<lambda>n. 9),
      pipe_rc = (\<lambda>n. Some (10, 11)),
      call_rc = (\<lambda>n. CallOk)\<rparr>"

definition example_child :: "int \<Rightarrow> bool \<Rightarrow> bool \<Rightarrow> int \<Rightarrow> int \<Rightarrow> iTermMultiServerChild" where
  "example_child p isTerminated disowned fd st =
     \<lparr>messageWithLaunchRequest = example_launch, pid = p, terminated = isTerminated,
      willTerminate = disowned, masterFd = fd, status = st, tty = ''/dev/ttys001''\<rparr>"

definition example_world :: "iTermMultiServerChild list \<Rightarrow> world" where
  "example_world cs = \<lparr>children = cs, gPipe = (4, 5), trace = [], tick = 0\<rparr>"

subsection \<open>Reading the trace\<close>

text \<open>
  The frames that \<open>sendmsg\<close> accepted, each with the descriptor it was sent on
  and the descriptor attached to it, and the ReportChild and Termination
  messages among them: what a peer receives.
\<close>

fun report_of :: "event \<Rightarrow> iTermMultiServerReportChild option" where
  "report_of (SendMsg fd (Encoded (ReportChildMessage m)) att a) =
     (if 0 \<le> ssize a then Some m else None)"
| "report_of ev = None"

fun sent_frame :: "event \<Rightarrow> (int \<times> frame \<times> int option) option" where
  "sent_frame (SendMsg fd fr att a) = (if 0 \<le> ssize a then Some (fd, fr, att) else None)"
| "sent_frame ev = None"

fun termination_of :: "event \<Rightarrow> int option" where
  "termination_of (SendMsg fd (Encoded (Termination p)) att a) =
     (if 0 \<le> ssize a then Some p else None)"
| "termination_of ev = None"

text \<open>
  Between the registry before a pass of the reaper (\<open>w\<close>) and after it (\<open>w'\<close>):
  the record at index \<open>j\<close> was reaped in the pass, and the pids, in registry
  order from index \<open>i\<close>, of the records reaped in the pass that were not disowned.
\<close>

definition newly_reaped :: "world \<Rightarrow> world \<Rightarrow> nat \<Rightarrow> bool" where
  "newly_reaped w w' j = (\<not> terminated (children w ! j) \<and> terminated (children w' ! j))"

definition owed_terminations :: "world \<Rightarrow> world \<Rightarrow> nat \<Rightarrow> int list" where
  "owed_terminations w w' i =
     map (\<lambda>j. pid (children w ! j))
       (filter (\<lambda>j. newly_reaped w w' j \<and> \<not> willTerminate (children w ! j))
          [i..<length (children w)])"

section \<open>Properties\<close>

subsection \<open>Looking a child up by pid\<close>

lemma index_by_pid_from_range:
  "index_by_pid_from cs p i = -1
     \<or> (i \<le> index_by_pid_from cs p i \<and> index_by_pid_from cs p i < i + int (length cs))"
  by (induction cs arbitrary: i) (auto, force+)

lemma index_by_pid_from_none:
  "0 \<le> i \<Longrightarrow> (index_by_pid_from cs p i < 0) = (\<forall>c\<in>set cs. pid c \<noteq> p)"
proof (induction cs arbitrary: i)
  case Nil
  then show ?case by simp
next
  case (Cons c cs)
  then show ?case by (cases "pid c = p") auto
qed

lemma index_by_pid_from_found:
  "0 \<le> i \<Longrightarrow> 0 \<le> index_by_pid_from cs p i \<Longrightarrow>
     pid (cs ! nat (index_by_pid_from cs p i - i)) = p"
proof (induction cs arbitrary: i)
  case Nil
  then show ?case by simp
next
  case (Cons c cs)
  show ?case
  proof (cases "pid c = p")
    case True
    then show ?thesis by simp
  next
    case False
    have "index_by_pid_from cs p (i + 1) = -1 \<or> i + 1 \<le> index_by_pid_from cs p (i + 1)"
      using index_by_pid_from_range [of cs p "i + 1"] by auto
    with Cons.prems False have ge: "i + 1 \<le> index_by_pid_from cs p (i + 1)" by auto
    have "pid (cs ! nat (index_by_pid_from cs p (i + 1) - (i + 1))) = p"
      using Cons.IH [of "i + 1"] Cons.prems ge by auto
    moreover have "nat (index_by_pid_from cs p (i + 1) - i)
                     = Suc (nat (index_by_pid_from cs p (i + 1) - (i + 1)))"
      using ge by auto
    ultimately show ?thesis using False by simp
  qed
qed

lemma index_by_pid_from_first:
  "0 \<le> i \<Longrightarrow> 0 \<le> index_by_pid_from cs p i \<Longrightarrow>
     j < nat (index_by_pid_from cs p i - i) \<Longrightarrow> pid (cs ! j) \<noteq> p"
proof (induction cs arbitrary: i j)
  case Nil
  then show ?case by simp
next
  case (Cons c cs)
  show ?case
  proof (cases "pid c = p")
    case True
    with Cons.prems show ?thesis by simp
  next
    case False
    have "index_by_pid_from cs p (i + 1) = -1 \<or> i + 1 \<le> index_by_pid_from cs p (i + 1)"
      using index_by_pid_from_range [of cs p "i + 1"] by auto
    with Cons.prems False have ge: "i + 1 \<le> index_by_pid_from cs p (i + 1)" by auto
    show ?thesis
    proof (cases j)
      case 0
      with False show ?thesis by simp
    next
      case (Suc k)
      have "k < nat (index_by_pid_from cs p (i + 1) - (i + 1))"
        using Cons.prems False Suc ge by auto
      then have "pid (cs ! k) \<noteq> p"
        using Cons.IH [of "i + 1" k] Cons.prems ge by auto
      with Suc show ?thesis by simp
    qed
  qed
qed

lemma GetChildIndexByPID_range:
  "GetChildIndexByPID w p = -1
     \<or> (0 \<le> GetChildIndexByPID w p \<and> GetChildIndexByPID w p < int (length (children w)))"
  using index_by_pid_from_range [of "children w" p 0] by (simp add: GetChildIndexByPID_def)

lemma GetChildIndexByPID_none:
  "(GetChildIndexByPID w p < 0) = (\<forall>c\<in>set (children w). pid c \<noteq> p)"
  using index_by_pid_from_none [of 0 "children w" p] by (simp add: GetChildIndexByPID_def)

lemma GetChildIndexByPID_found:
  "0 \<le> GetChildIndexByPID w p \<Longrightarrow>
     nat (GetChildIndexByPID w p) < length (children w)
     \<and> pid (children w ! nat (GetChildIndexByPID w p)) = p
     \<and> (\<forall>j<nat (GetChildIndexByPID w p). pid (children w ! j) \<noteq> p)"
  using index_by_pid_from_found [of 0 "children w" p]
    index_by_pid_from_first [of 0 "children w" p]
    GetChildIndexByPID_range [of w p]
  by (auto simp: GetChildIndexByPID_def)

subsection \<open>The four cases of the wait handler\<close>

lemma HandleWait_no_match:
  assumes "GetChildIndexByPID w (wait_pid wait) < 0"
  shows "\<exists>w'. HandleWait e w fd wait
           = Returns (if encode_rc e (tick w) = 0 \<and> 0 \<le> ssize (sendmsg_rc e (Suc (tick w)))
                      then 0 else -1, w')
     \<and> children w' = children w
     \<and> trace w' = trace w @
         (if encode_rc e (tick w) = 0
          then [SendMsg fd (Encoded (WaitResponse (wait_pid wait) 0 (-1))) None
                  (sendmsg_rc e (Suc (tick w)))]
          else [])"
  using assms
  by (simp add: HandleWait_def Let_def
      iTermMultiServerProtocolEncodeMessageFromServer_def
      iTermFileDescriptorServerSendMessage_def)

lemma HandleWait_not_terminated:
  assumes "0 \<le> GetChildIndexByPID w (wait_pid wait)"
    and "\<not> terminated (children w ! nat (GetChildIndexByPID w (wait_pid wait)))"
    and "\<not> removePreemptively wait"
  shows "\<exists>w'. HandleWait e w fd wait
           = Returns (if encode_rc e (tick w) = 0 \<and> 0 \<le> ssize (sendmsg_rc e (Suc (tick w)))
                      then 0 else -1, w')
     \<and> children w' = children w
     \<and> trace w' = trace w @
         (if encode_rc e (tick w) = 0
          then [SendMsg fd (Encoded (WaitResponse (wait_pid wait) 0 (-2))) None
                  (sendmsg_rc e (Suc (tick w)))]
          else [])"
  using assms
  by (simp add: HandleWait_def Let_def
      iTermMultiServerProtocolEncodeMessageFromServer_def
      iTermFileDescriptorServerSendMessage_def)

lemma HandleWait_preemptive:
  assumes "0 \<le> GetChildIndexByPID w (wait_pid wait)"
    and "\<not> terminated (children w ! nat (GetChildIndexByPID w (wait_pid wait)))"
    and "removePreemptively wait"
  shows "\<exists>w'. HandleWait e w fd wait
           = Returns (if encode_rc e (tick w) = 0 \<and> 0 \<le> ssize (sendmsg_rc e (Suc (tick w)))
                      then 0 else -1, w')
     \<and> children w' = (children w)[nat (GetChildIndexByPID w (wait_pid wait)) :=
          (children w ! nat (GetChildIndexByPID w (wait_pid wait)))
            \<lparr>willTerminate := True, masterFd := -1\<rparr>]
     \<and> trace w' = trace w @
         [Close (masterFd (children w ! nat (GetChildIndexByPID w (wait_pid wait))))] @
         (if encode_rc e (tick w) = 0
          then [SendMsg fd (Encoded (WaitResponse (wait_pid wait) 0 1)) None
                  (sendmsg_rc e (Suc (tick w)))]
          else [])"
proof -
  have "nat (GetChildIndexByPID w (wait_pid wait)) < length (children w)"
    using GetChildIndexByPID_range [of w "wait_pid wait"] assms(1) by auto
  then show ?thesis
    using assms
    by (simp add: HandleWait_def Let_def close_fd_def
        iTermMultiServerProtocolEncodeMessageFromServer_def
        iTermFileDescriptorServerSendMessage_def)
qed

lemma HandleWait_terminated:
  assumes "0 \<le> GetChildIndexByPID w (wait_pid wait)"
    and "terminated (children w ! nat (GetChildIndexByPID w (wait_pid wait)))"
  shows "\<exists>w'. HandleWait e w fd wait
           = Returns (if encode_rc e (tick w) = 0 \<and> 0 \<le> ssize (sendmsg_rc e (Suc (tick w)))
                      then 0 else -1, w')
     \<and> children w' =
         (if encode_rc e (tick w) = 0 \<and> 0 \<le> ssize (sendmsg_rc e (Suc (tick w)))
          then take (nat (GetChildIndexByPID w (wait_pid wait))) (children w)
               @ drop (Suc (nat (GetChildIndexByPID w (wait_pid wait)))) (children w)
          else children w)
     \<and> trace w' = trace w @
         (if encode_rc e (tick w) = 0
          then [SendMsg fd (Encoded (WaitResponse (wait_pid wait)
                  (status (children w ! nat (GetChildIndexByPID w (wait_pid wait)))) 0)) None
                  (sendmsg_rc e (Suc (tick w)))]
          else [])"
proof -
  have "GetChildIndexByPID w (wait_pid wait) < int (length (children w))"
    using GetChildIndexByPID_range [of w "wait_pid wait"] assms(1) by auto
  then show ?thesis
    using assms
    by (auto simp add: HandleWait_def Let_def RemoveChild_def
        iTermMultiServerProtocolEncodeMessageFromServer_def
        iTermFileDescriptorServerSendMessage_def)
qed

subsection \<open>C1: the case analysis of the wait handler\<close>

text \<open>
  C1, as stated, lets every Wait on a terminated record remove it. The handler
  removes the record only after the response has been sent: with a terminated
  child 5 (status 3) and a \<open>sendmsg\<close> that fails, the response with status 3 and
  error number 0 is built and handed to the transport, the handler returns -1,
  and the record is still in the registry.
\<close>

theorem HandleWait_removal_counterexample:
  "HandleWait (quiet_env\<lparr>sendmsg_rc := (\<lambda>n. SendFailed EOTHER)\<rparr>)
     (example_world [example_child 5 True False 7 3]) 1
     \<lparr>wait_pid = 5, removePreemptively = False\<rparr>
   = Returns (-1,
       \<lparr>children = [example_child 5 True False 7 3], gPipe = (4, 5),
        trace = [SendMsg 1 (Encoded (WaitResponse 5 3 0)) None (SendFailed EOTHER)],
        tick = 2\<rparr>)"
  by (simp add: HandleWait_def GetChildIndexByPID_def example_world_def example_child_def
      quiet_env_def Let_def iTermMultiServerProtocolEncodeMessageFromServer_def
      iTermFileDescriptorServerSendMessage_def)

text \<open>
  C1 (amended): for every Wait request, with \<open>i\<close> the index of the first record
  whose pid is the request's (negative when there is none) and \<open>c\<close> that record,
  the handler returns, and the response it builds (handed to the transport
  whenever it encodes) and the registry follow the case analysis: no match gives
  error number -1, registry unchanged; a match that is not terminated and not
  preemptive gives -2, registry unchanged; a match that is not terminated and
  preemptive closes the master descriptor, sets it to -1, sets \<open>willTerminate\<close>,
  answers status 0 and error number 1, and keeps the record; a terminated match
  answers the recorded status and error number 0, and the record is removed
  exactly when the response was encoded and sent (the handler returns 0);
  otherwise the handler returns -1 and the registry is unchanged.
\<close>

theorem HandleWait_case_analysis:
  fixes e :: env and w :: world and fd :: int and wait :: iTermMultiServerRequestWait
  defines "i \<equiv> GetChildIndexByPID w (wait_pid wait)"
  defines "c \<equiv> children w ! nat i"
  defines "sent \<equiv> encode_rc e (tick w) = 0 \<and> 0 \<le> ssize (sendmsg_rc e (Suc (tick w)))"
  shows "\<exists>w' st en.
      HandleWait e w fd wait = Returns (if sent then 0 else -1, w')
    \<and> trace w' = trace w
        @ (if 0 \<le> i \<and> \<not> terminated c \<and> removePreemptively wait
           then [Close (masterFd c)] else [])
        @ (if encode_rc e (tick w) = 0
           then [SendMsg fd (Encoded (WaitResponse (wait_pid wait) st en)) None
                   (sendmsg_rc e (Suc (tick w)))]
           else [])
    \<and> ((i < 0) = (\<forall>x\<in>set (children w). pid x \<noteq> wait_pid wait))
    \<and> (0 \<le> i \<longrightarrow> nat i < length (children w) \<and> pid c = wait_pid wait
          \<and> (\<forall>j<nat i. pid (children w ! j) \<noteq> wait_pid wait))
    \<and> (i < 0 \<longrightarrow> st = 0 \<and> en = -1 \<and> children w' = children w)
    \<and> (0 \<le> i \<and> \<not> terminated c \<and> \<not> removePreemptively wait \<longrightarrow>
          st = 0 \<and> en = -2 \<and> children w' = children w)
    \<and> (0 \<le> i \<and> \<not> terminated c \<and> removePreemptively wait \<longrightarrow>
          st = 0 \<and> en = 1
          \<and> children w' = (children w)[nat i := c\<lparr>willTerminate := True, masterFd := -1\<rparr>])
    \<and> (0 \<le> i \<and> terminated c \<longrightarrow>
          st = status c \<and> en = 0
          \<and> children w' = (if sent then take (nat i) (children w) @ drop (Suc (nat i)) (children w)
                            else children w))"
proof -
  have none: "(i < 0) = (\<forall>x\<in>set (children w). pid x \<noteq> wait_pid wait)"
    unfolding i_def by (rule GetChildIndexByPID_none)
  have found: "0 \<le> i \<longrightarrow> nat i < length (children w) \<and> pid c = wait_pid wait
          \<and> (\<forall>j<nat i. pid (children w ! j) \<noteq> wait_pid wait)"
    unfolding i_def c_def using GetChildIndexByPID_found [of w "wait_pid wait"] by blast
  consider (nomatch) "i < 0"
    | (alive) "0 \<le> i" "\<not> terminated c" "\<not> removePreemptively wait"
    | (preempt) "0 \<le> i" "\<not> terminated c" "removePreemptively wait"
    | (dead) "0 \<le> i" "terminated c"
    by linarith
  then show ?thesis
  proof cases
    case nomatch
    obtain w' where "HandleWait e w fd wait = Returns (if sent then 0 else -1, w')"
      "children w' = children w"
      "trace w' = trace w @
         (if encode_rc e (tick w) = 0
          then [SendMsg fd (Encoded (WaitResponse (wait_pid wait) 0 (-1))) None
                  (sendmsg_rc e (Suc (tick w)))]
          else [])"
      using HandleWait_no_match [of w wait e fd] nomatch unfolding i_def sent_def by blast
    with nomatch none found show ?thesis
      by (intro exI [of _ w'] exI [of _ 0] exI [of _ "-1"]) simp
  next
    case alive
    obtain w' where "HandleWait e w fd wait = Returns (if sent then 0 else -1, w')"
      "children w' = children w"
      "trace w' = trace w @
         (if encode_rc e (tick w) = 0
          then [SendMsg fd (Encoded (WaitResponse (wait_pid wait) 0 (-2))) None
                  (sendmsg_rc e (Suc (tick w)))]
          else [])"
      using HandleWait_not_terminated [of w wait e fd] alive unfolding i_def c_def sent_def
      by blast
    with alive none found show ?thesis
      by (intro exI [of _ w'] exI [of _ 0] exI [of _ "-2"]) simp
  next
    case preempt
    obtain w' where "HandleWait e w fd wait = Returns (if sent then 0 else -1, w')"
      "children w' = (children w)[nat i := c\<lparr>willTerminate := True, masterFd := -1\<rparr>]"
      "trace w' = trace w @ [Close (masterFd c)] @
         (if encode_rc e (tick w) = 0
          then [SendMsg fd (Encoded (WaitResponse (wait_pid wait) 0 1)) None
                  (sendmsg_rc e (Suc (tick w)))]
          else [])"
      using HandleWait_preemptive [of w wait e fd] preempt unfolding i_def c_def sent_def
      by blast
    with preempt none found show ?thesis
      by (intro exI [of _ w'] exI [of _ 0] exI [of _ 1]) simp
  next
    case dead
    obtain w' where "HandleWait e w fd wait = Returns (if sent then 0 else -1, w')"
      "children w' = (if sent then take (nat i) (children w) @ drop (Suc (nat i)) (children w)
                      else children w)"
      "trace w' = trace w @
         (if encode_rc e (tick w) = 0
          then [SendMsg fd (Encoded (WaitResponse (wait_pid wait) (status c) 0)) None
                  (sendmsg_rc e (Suc (tick w)))]
          else [])"
      using HandleWait_terminated [of w wait e fd] dead unfolding i_def c_def sent_def
      by blast
    with dead none found show ?thesis
      by (intro exI [of _ w'] exI [of _ "status c"] exI [of _ 0]) simp
  qed
qed

theorem HandleWait_case_analysis_witness:
  "\<exists>w'. HandleWait quiet_env (example_world [example_child 5 True False 7 3]) 1
           \<lparr>wait_pid = 5, removePreemptively = False\<rparr> = Returns (0, w')
     \<and> children w' = []
     \<and> trace w' = [SendMsg 1 (Encoded (WaitResponse 5 3 0)) None (SendWrote 1)]"
  using HandleWait_case_analysis [of quiet_env "example_world [example_child 5 True False 7 3]" 1
      "\<lparr>wait_pid = 5, removePreemptively = False\<rparr>"]
  by (auto simp: GetChildIndexByPID_def example_world_def example_child_def quiet_env_def)

subsection \<open>C10: a terminated record is removed only after its response was sent\<close>

text \<open>
  C10: when the matching record is terminated, a response that fails to encode
  or to send makes the handler return -1 with the registry unchanged, so the
  lookup still finds the record, and a later Wait whose response is sent gets
  the recorded status with error number 0. When the response is sent, the
  handler returns 0, the frame is the last thing in the trace, and the record
  is gone from the registry.
\<close>

theorem HandleWait_removes_after_send:
  fixes e :: env and w :: world and fd :: int and wait :: iTermMultiServerRequestWait
  defines "i \<equiv> GetChildIndexByPID w (wait_pid wait)"
  defines "c \<equiv> children w ! nat i"
  defines "sent \<equiv> encode_rc e (tick w) = 0 \<and> 0 \<le> ssize (sendmsg_rc e (Suc (tick w)))"
  assumes match: "0 \<le> i" and dead: "terminated c"
  shows "\<exists>w'.
      (\<not> sent \<longrightarrow>
         HandleWait e w fd wait = Returns (-1, w')
         \<and> children w' = children w
         \<and> GetChildIndexByPID w' (wait_pid wait) = i
         \<and> (\<forall>e2 fd2. encode_rc e2 (tick w') = 0
                \<and> 0 \<le> ssize (sendmsg_rc e2 (Suc (tick w'))) \<longrightarrow>
              (\<exists>w2. HandleWait e2 w' fd2 wait = Returns (0, w2)
                 \<and> trace w2 = trace w' @
                      [SendMsg fd2 (Encoded (WaitResponse (wait_pid wait) (status c) 0)) None
                         (sendmsg_rc e2 (Suc (tick w')))]
                 \<and> children w2 = take (nat i) (children w) @ drop (Suc (nat i)) (children w))))
    \<and> (sent \<longrightarrow>
         HandleWait e w fd wait = Returns (0, w')
         \<and> trace w' = trace w @
              [SendMsg fd (Encoded (WaitResponse (wait_pid wait) (status c) 0)) None
                 (sendmsg_rc e (Suc (tick w)))]
         \<and> children w' = take (nat i) (children w) @ drop (Suc (nat i)) (children w))"
proof -
  obtain w' where run: "HandleWait e w fd wait = Returns (if sent then 0 else -1, w')"
    and kids: "children w' =
         (if sent then take (nat i) (children w) @ drop (Suc (nat i)) (children w)
          else children w)"
    and tr: "trace w' = trace w @
         (if encode_rc e (tick w) = 0
          then [SendMsg fd (Encoded (WaitResponse (wait_pid wait) (status c) 0)) None
                  (sendmsg_rc e (Suc (tick w)))]
          else [])"
    using HandleWait_terminated [of w wait e fd] match dead unfolding i_def c_def sent_def
    by blast
  have later: "\<exists>w2. HandleWait e2 w' fd2 wait = Returns (0, w2)
                 \<and> trace w2 = trace w' @
                      [SendMsg fd2 (Encoded (WaitResponse (wait_pid wait) (status c) 0)) None
                         (sendmsg_rc e2 (Suc (tick w')))]
                 \<and> children w2 = take (nat i) (children w) @ drop (Suc (nat i)) (children w)"
    if "\<not> sent" and ok: "encode_rc e2 (tick w') = 0 \<and> 0 \<le> ssize (sendmsg_rc e2 (Suc (tick w')))"
    for e2 fd2
  proof -
    have same: "children w' = children w" using kids that(1) by simp
    then have idx: "GetChildIndexByPID w' (wait_pid wait) = i"
      by (simp add: GetChildIndexByPID_def i_def)
    show ?thesis
      using HandleWait_terminated [of w' wait e2 fd2] match dead ok
      unfolding idx same c_def by (simp, blast)
  qed
  have "\<not> sent \<longrightarrow> GetChildIndexByPID w' (wait_pid wait) = i"
    using kids by (simp add: GetChildIndexByPID_def i_def)
  with run kids tr later show ?thesis
    by (intro exI [of _ w']) (auto simp: sent_def)
qed

theorem HandleWait_removes_after_send_witness:
  "\<exists>w'. HandleWait (quiet_env\<lparr>encode_rc := (\<lambda>n. 1)\<rparr>)
           (example_world [example_child 4 False False 6 0, example_child 5 True False 7 3]) 1
           \<lparr>wait_pid = 5, removePreemptively = False\<rparr> = Returns (-1, w')
     \<and> children w' = [example_child 4 False False 6 0, example_child 5 True False 7 3]
     \<and> (\<exists>w2. HandleWait quiet_env w' 1 \<lparr>wait_pid = 5, removePreemptively = False\<rparr>
                = Returns (0, w2)
          \<and> children w2 = [example_child 4 False False 6 0])"
proof -
  let ?w = "example_world [example_child 4 False False 6 0, example_child 5 True False 7 3]"
  let ?q = "\<lparr>wait_pid = 5, removePreemptively = False\<rparr>"
  let ?e = "quiet_env\<lparr>encode_rc := (\<lambda>n. 1)\<rparr>"
  have i: "GetChildIndexByPID ?w (wait_pid ?q) = 1"
    by (simp add: GetChildIndexByPID_def example_world_def example_child_def)
  have "0 \<le> GetChildIndexByPID ?w (wait_pid ?q)"
    and "terminated (children ?w ! nat (GetChildIndexByPID ?w (wait_pid ?q)))"
    unfolding i by (simp_all add: example_world_def example_child_def)
  from HandleWait_removes_after_send [OF this, of ?e 1]
  obtain w' where run: "HandleWait ?e ?w 1 ?q = Returns (-1, w')"
    and kids: "children w' = children ?w"
    and later: "\<forall>e2 fd2. encode_rc e2 (tick w') = 0
                \<and> 0 \<le> ssize (sendmsg_rc e2 (Suc (tick w'))) \<longrightarrow>
              (\<exists>w2. HandleWait e2 w' fd2 ?q = Returns (0, w2)
                 \<and> trace w2 = trace w' @
                      [SendMsg fd2 (Encoded (WaitResponse (wait_pid ?q)
                          (status (children ?w ! nat (GetChildIndexByPID ?w (wait_pid ?q)))) 0))
                         None (sendmsg_rc e2 (Suc (tick w')))]
                 \<and> children w2 = take (nat (GetChildIndexByPID ?w (wait_pid ?q))) (children ?w)
                      @ drop (Suc (nat (GetChildIndexByPID ?w (wait_pid ?q)))) (children ?w))"
    by (auto simp: quiet_env_def)
  have "encode_rc quiet_env (tick w') = 0
          \<and> 0 \<le> ssize (sendmsg_rc quiet_env (Suc (tick w')))"
    by (simp add: quiet_env_def)
  with later obtain w2 where "HandleWait quiet_env w' 1 ?q = Returns (0, w2)"
    and "children w2 = take (nat (GetChildIndexByPID ?w (wait_pid ?q))) (children ?w)
                      @ drop (Suc (nat (GetChildIndexByPID ?w (wait_pid ?q)))) (children ?w)"
    by blast
  then have "HandleWait quiet_env w' 1 ?q = Returns (0, w2)"
    and "children w2 = [example_child 4 False False 6 0]"
    unfolding i by (simp_all add: example_world_def)
  with run kids show ?thesis
    by (auto simp: example_world_def)
qed

subsection \<open>C5: disowned records and Wait\<close>

lemma reportable_from_filter:
  "reportable_from cs n = n + int (length (filter (\<lambda>x. \<not> willTerminate x) cs))"
  by (induction cs arbitrary: n) auto

lemma GetNumberOfReportableChildren_filter:
  "GetNumberOfReportableChildren w = int (length (filter (\<lambda>x. \<not> willTerminate x) (children w)))"
  by (simp add: GetNumberOfReportableChildren_def reportable_from_filter)

lemma index_by_pid_from_map:
  "(\<And>x. pid (f x) = pid x) \<Longrightarrow> index_by_pid_from (map f cs) p i = index_by_pid_from cs p i"
  by (induction cs arbitrary: i) auto

text \<open>
  C5, as stated, makes a record with \<open>willTerminate\<close> set invisible to Wait. The
  lookup compares pids only: a Wait for the disowned and reaped child 5 (status
  3) is answered with status 3 and error number 0, not -1, and removes the record.
\<close>

theorem disowned_record_wait_counterexample:
  "HandleWait quiet_env (example_world [example_child 5 True True (-1) 3]) 1
     \<lparr>wait_pid = 5, removePreemptively = False\<rparr>
   = Returns (0,
       \<lparr>children = [], gPipe = (4, 5),
        trace = [SendMsg 1 (Encoded (WaitResponse 5 3 0)) None (SendWrote 1)],
        tick = 2\<rparr>)"
  by (simp add: HandleWait_def GetChildIndexByPID_def example_world_def example_child_def
      quiet_env_def Let_def RemoveChild_def iTermMultiServerProtocolEncodeMessageFromServer_def
      iTermFileDescriptorServerSendMessage_def)

text \<open>
  C5 (amended): a record with \<open>willTerminate\<close> set is left out of the count of
  reportable children, but not of Wait. The lookup gives the same index whatever
  the \<open>willTerminate\<close> flags are, so when the first record with the request's pid
  is a disowned one, the response never carries error number -1: while the child
  is not terminated it carries -2, or 1 for a preemptive wait (which closes
  \<open>masterFd\<close> again and keeps the record); once the child is terminated it
  carries the recorded status and error number 0, and the record is removed
  when that response has been sent.
\<close>

theorem disowned_record_visible_to_wait:
  fixes e :: env and w :: world and fd :: int and wait :: iTermMultiServerRequestWait
  defines "i \<equiv> GetChildIndexByPID w (wait_pid wait)"
  defines "c \<equiv> children w ! nat i"
  defines "sent \<equiv> encode_rc e (tick w) = 0 \<and> 0 \<le> ssize (sendmsg_rc e (Suc (tick w)))"
  assumes match: "0 \<le> i" and disowned: "willTerminate c"
  shows "\<exists>w' st en.
      HandleWait e w fd wait = Returns (if sent then 0 else -1, w')
    \<and> trace w' = trace w
        @ (if \<not> terminated c \<and> removePreemptively wait then [Close (masterFd c)] else [])
        @ (if encode_rc e (tick w) = 0
           then [SendMsg fd (Encoded (WaitResponse (wait_pid wait) st en)) None
                   (sendmsg_rc e (Suc (tick w)))]
           else [])
    \<and> en \<noteq> -1
    \<and> (\<not> terminated c \<and> \<not> removePreemptively wait \<longrightarrow>
          st = 0 \<and> en = -2 \<and> children w' = children w)
    \<and> (\<not> terminated c \<and> removePreemptively wait \<longrightarrow>
          st = 0 \<and> en = 1 \<and> children w' = (children w)[nat i := c\<lparr>masterFd := -1\<rparr>])
    \<and> (terminated c \<longrightarrow>
          st = status c \<and> en = 0
          \<and> children w' = (if sent then take (nat i) (children w) @ drop (Suc (nat i)) (children w)
                            else children w))
    \<and> (\<forall>b. GetChildIndexByPID
               (w\<lparr>children := map (\<lambda>x. x\<lparr>willTerminate := b x\<rparr>) (children w)\<rparr>)
               (wait_pid wait) = i)
    \<and> GetNumberOfReportableChildren w
        = int (length (filter (\<lambda>x. \<not> willTerminate x) (children w)))"
proof -
  have blind: "\<forall>b. GetChildIndexByPID
               (w\<lparr>children := map (\<lambda>x. x\<lparr>willTerminate := b x\<rparr>) (children w)\<rparr>)
               (wait_pid wait) = i"
    by (simp add: GetChildIndexByPID_def i_def index_by_pid_from_map)
  note count = GetNumberOfReportableChildren_filter [of w]
  have same: "c\<lparr>willTerminate := True, masterFd := -1\<rparr> = c\<lparr>masterFd := -1\<rparr>"
    using disowned by simp
  consider (alive) "\<not> terminated c" "\<not> removePreemptively wait"
    | (preempt) "\<not> terminated c" "removePreemptively wait"
    | (dead) "terminated c"
    by blast
  then show ?thesis
  proof cases
    case alive
    obtain w' where "HandleWait e w fd wait = Returns (if sent then 0 else -1, w')"
      "children w' = children w"
      "trace w' = trace w @
         (if encode_rc e (tick w) = 0
          then [SendMsg fd (Encoded (WaitResponse (wait_pid wait) 0 (-2))) None
                  (sendmsg_rc e (Suc (tick w)))]
          else [])"
      using HandleWait_not_terminated [of w wait e fd] match alive unfolding i_def c_def sent_def
      by blast
    with alive blind count show ?thesis
      by (intro exI [of _ w'] exI [of _ 0] exI [of _ "-2"]) simp
  next
    case preempt
    obtain w' where "HandleWait e w fd wait = Returns (if sent then 0 else -1, w')"
      "children w' = (children w)[nat i := c\<lparr>willTerminate := True, masterFd := -1\<rparr>]"
      "trace w' = trace w @ [Close (masterFd c)] @
         (if encode_rc e (tick w) = 0
          then [SendMsg fd (Encoded (WaitResponse (wait_pid wait) 0 1)) None
                  (sendmsg_rc e (Suc (tick w)))]
          else [])"
      using HandleWait_preemptive [of w wait e fd] match preempt unfolding i_def c_def sent_def
      by blast
    with preempt blind count same show ?thesis
      by (intro exI [of _ w'] exI [of _ 0] exI [of _ 1]) simp
  next
    case dead
    obtain w' where "HandleWait e w fd wait = Returns (if sent then 0 else -1, w')"
      "children w' = (if sent then take (nat i) (children w) @ drop (Suc (nat i)) (children w)
                      else children w)"
      "trace w' = trace w @
         (if encode_rc e (tick w) = 0
          then [SendMsg fd (Encoded (WaitResponse (wait_pid wait) (status c) 0)) None
                  (sendmsg_rc e (Suc (tick w)))]
          else [])"
      using HandleWait_terminated [of w wait e fd] match dead unfolding i_def c_def sent_def
      by blast
    with dead blind count show ?thesis
      by (intro exI [of _ w'] exI [of _ "status c"] exI [of _ 0]) simp
  qed
qed

theorem disowned_record_visible_to_wait_witness:
  "\<exists>w'. HandleWait quiet_env (example_world [example_child 5 False True (-1) 0]) 1
           \<lparr>wait_pid = 5, removePreemptively = True\<rparr> = Returns (0, w')
     \<and> trace w' = [Close (-1), SendMsg 1 (Encoded (WaitResponse 5 0 1)) None (SendWrote 1)]
     \<and> children w' = [example_child 5 False True (-1) 0]
     \<and> GetNumberOfReportableChildren (example_world [example_child 5 False True (-1) 0]) = 0"
proof -
  let ?w = "example_world [example_child 5 False True (-1) 0]"
  let ?q = "\<lparr>wait_pid = 5, removePreemptively = True\<rparr>"
  have i: "GetChildIndexByPID ?w (wait_pid ?q) = 0"
    by (simp add: GetChildIndexByPID_def example_world_def example_child_def)
  have "0 \<le> GetChildIndexByPID ?w (wait_pid ?q)"
    and "willTerminate (children ?w ! nat (GetChildIndexByPID ?w (wait_pid ?q)))"
    unfolding i by (simp_all add: example_world_def example_child_def)
  from disowned_record_visible_to_wait [OF this, of quiet_env 1]
  show ?thesis
    unfolding i by (auto simp: example_world_def example_child_def quiet_env_def)
qed

subsection \<open>C3: a failed fork\<close>

text \<open>
  C3: after a failed \<open>forkpty\<close> the daemon should answer status -1, pid 0, no
  descriptor, and keep no record. \<open>Launch\<close> tests \<open>forkState->pid == 1\<close>, and
  \<open>forkpty\<close> reports failure with -1: the failure branch is not taken, the
  uninitialised \<open>fd\<close> is returned, and when that value is not negative (7 here)
  a record with pid -1 is added and a response with status 0, pid -1 and
  descriptor 7 attached is sent.
\<close>

theorem HandleLaunchRequest_failed_fork:
  "HandleLaunchRequest
     (quiet_env\<lparr>forkpty_rc := (\<lambda>n. \<lparr>forkpty_pid = -1, forkpty_fd = 7, forkpty_tty = []\<rparr>)\<rparr>)
     (example_world []) 1 example_launch
   = Returns (0,
       \<lparr>children = [\<lparr>messageWithLaunchRequest = example_launch, pid = -1,
                      terminated = False, willTerminate = False, masterFd = 7, status = 0,
                      tty = []\<rparr>],
        gPipe = (4, 5),
        trace = [SendMsg 1 (Encoded (LaunchResponse 0 (-1) 42 [])) (Some 7) (SendWrote 1)],
        tick = 3\<rparr>)"
  by (simp add: HandleLaunchRequest_def Launch_def SendLaunchResponse_def AddChild_def
      copy_launch_request_def example_world_def quiet_env_def example_launch_def Let_def
      iTermMultiServerProtocolEncodeMessageFromServer_def
      iTermFileDescriptorServerSendMessageAndFileDescriptor_def)

subsection \<open>C4: a handler's failure and the dispatch cycle\<close>

lemma ReadAndHandleRequest_result:
  "ReadAndHandleRequest e w readFd writeFd = Returns (rc, w') \<Longrightarrow>
     rc = (case fst (ReadRequest e w readFd) of Inl st \<Rightarrow> -1 | Inr request \<Rightarrow> 0)"
  by (auto simp: ReadAndHandleRequest_def split: prod.splits sum.splits result.splits)

text \<open>
  C4: a handler's failure should fail the dispatch cycle and end the attached
  phase. \<open>ReadAndHandleRequest\<close> stores the handler's result in a local and
  returns 0. With minimum version 1, a Handshake offering version 0 makes
  \<open>HandleHandshake\<close> return -1, the dispatch cycle returns 0, and the iteration
  of \<open>SelectLoop\<close> that served it does not leave the loop: with fuel for one
  iteration the loop is still running, and the write descriptor is not closed.
  When reading the request fails, the same iteration does leave the loop.
\<close>

theorem handshake_failure_not_propagated:
  "HandleHandshake quiet_env (example_world []) 1 \<lparr>maximumProtocolVersion = 0\<rparr>
     = Returns (-1, example_world [])
   \<and> ReadAndHandleRequest
       (quiet_env\<lparr>parse_rc := (\<lambda>n. (0, ClientHandshake \<lparr>maximumProtocolVersion = 0\<rparr>))\<rparr>)
       (example_world []) 3 1
     = Returns (0, \<lparr>children = [], gPipe = (4, 5), trace = [], tick = 2\<rparr>)
   \<and> SelectLoop 1
       (quiet_env\<lparr>parse_rc := (\<lambda>n. (0, ClientHandshake \<lparr>maximumProtocolVersion = 0\<rparr>)),
                  select_rc := (\<lambda>n k. k = 2)\<rparr>)
       (example_world []) 0 1 3
     = Stopped OutOfFuel
   \<and> SelectLoop 1
       (quiet_env\<lparr>read_status_rc := (\<lambda>n. 1), select_rc := (\<lambda>n k. k = 2)\<rparr>)
       (example_world []) 0 1 3
     = Returns \<lparr>children = [], gPipe = (4, 5), trace = [Close 1], tick = 2\<rparr>"
  by (simp add: HandleHandshake_def ReadAndHandleRequest_def ReadRequest_def
      example_world_def quiet_env_def Let_def close_fd_def)

subsection \<open>C7: a launched child is registered before the response is sent\<close>

lemma SendLaunchResponse_effect:
  "SendLaunchResponse e w fd st p fdToSend ttyName uid = (rc, w') \<Longrightarrow>
     children w' = children w
     \<and> trace w' = trace w @
          (if encode_rc e (tick w) = 0
           then [SendMsg fd (Encoded (LaunchResponse st p uid ttyName))
                   (if 0 \<le> fdToSend then Some fdToSend else None)
                   (sendmsg_rc e (Suc (tick w)))]
           else [])
     \<and> rc = (if encode_rc e (tick w) \<noteq> 0 then -1
             else if ssize (sendmsg_rc e (Suc (tick w))) = -1 then 1 else 0)"
  by (auto simp: SendLaunchResponse_def Let_def
      iTermMultiServerProtocolEncodeMessageFromServer_def
      iTermFileDescriptorServerSendMessage_def
      iTermFileDescriptorServerSendMessageAndFileDescriptor_def
      split: if_splits)

text \<open>
  C7: when \<open>Launch\<close> returns a descriptor (not negative), the handler passes
  through a state \<open>wmid\<close> in which the child is the last record of the registry,
  with the launch request copied, and nothing has been sent yet; the response is
  sent from that state, with status 0 and the master descriptor attached,
  whenever it encodes. The final registry holds the record whatever the codec
  and \<open>sendmsg\<close> answer, so a failed send keeps it.
\<close>

theorem HandleLaunchRequest_registers_then_sends:
  assumes launched: "Launch e w launch = Returns (fdMaster, forkPid, ttyName, w1)"
    and ok: "0 \<le> fdMaster"
  shows "\<exists>rc w' wmid.
      HandleLaunchRequest e w fd launch = Returns (rc, w')
    \<and> children wmid = children w @
         [\<lparr>messageWithLaunchRequest = launch, pid = forkPid, terminated = False,
           willTerminate = False, masterFd = fdMaster, status = 0, tty = ttyName\<rparr>]
    \<and> trace wmid = trace w
    \<and> SendLaunchResponse e wmid fd 0 forkPid fdMaster ttyName (uniqueId launch) = (rc, w')
    \<and> trace w' = trace w @
         (if encode_rc e (tick wmid) = 0
          then [SendMsg fd (Encoded (LaunchResponse 0 forkPid (uniqueId launch) ttyName))
                  (Some fdMaster) (sendmsg_rc e (Suc (tick wmid)))]
          else [])
    \<and> children w' = children wmid
    \<and> rc = (if encode_rc e (tick wmid) \<noteq> 0 then -1
            else if ssize (sendmsg_rc e (Suc (tick wmid))) = -1 then 1 else 0)"
proof -
  let ?wmid = "AddChild launch fdMaster ttyName forkPid w1"
  obtain rc w' where send:
    "SendLaunchResponse e ?wmid fd 0 forkPid fdMaster ttyName (uniqueId launch) = (rc, w')"
    by (cases "SendLaunchResponse e ?wmid fd 0 forkPid fdMaster ttyName (uniqueId launch)")
  have w1: "children w1 = children w" "trace w1 = trace w"
    using launched by (auto simp: Launch_def Let_def split: if_splits)
  have mid: "children ?wmid = children w @
         [\<lparr>messageWithLaunchRequest = launch, pid = forkPid, terminated = False,
           willTerminate = False, masterFd = fdMaster, status = 0, tty = ttyName\<rparr>]"
    "trace ?wmid = trace w"
    using w1 by (simp_all add: AddChild_def copy_launch_request_def)
  have run: "HandleLaunchRequest e w fd launch = Returns (rc, w')"
    using launched ok send by (simp add: HandleLaunchRequest_def)
  show ?thesis
    using SendLaunchResponse_effect [OF send] run mid send ok
    by (intro exI [of _ rc] exI [of _ w'] exI [of _ ?wmid]) simp
qed

theorem HandleLaunchRequest_registers_then_sends_witness:
  "\<exists>w'. HandleLaunchRequest (quiet_env\<lparr>sendmsg_rc := (\<lambda>n. SendFailed EOTHER)\<rparr>)
           (example_world []) 1 example_launch = Returns (1, w')
     \<and> children w' = [example_child 42 False False 7 0]
     \<and> trace w' = [SendMsg 1 (Encoded (LaunchResponse 0 42 42 ''/dev/ttys001'')) (Some 7)
                      (SendFailed EOTHER)]"
proof -
  let ?e = "quiet_env\<lparr>sendmsg_rc := (\<lambda>n. SendFailed EOTHER)\<rparr>"
  have "Launch ?e (example_world []) example_launch
          = Returns (7, 42, ''/dev/ttys001'', (example_world [])\<lparr>tick := 1\<rparr>)"
    and "(0::int) \<le> 7"
    by (simp_all add: Launch_def quiet_env_def example_world_def)
  from HandleLaunchRequest_registers_then_sends [OF this, of 1]
  show ?thesis
    by (auto simp: quiet_env_def example_world_def example_child_def example_launch_def
        SendLaunchResponse_def Let_def iTermMultiServerProtocolEncodeMessageFromServer_def
        iTermFileDescriptorServerSendMessageAndFileDescriptor_def)
qed

subsection \<open>C8: a second connection is rejected\<close>

text \<open>
  C8, as stated, has every accepted connection sent exactly one frame. The
  handler skips the send when the codec does not encode the rejection: the
  accepted connection 9 is closed and no frame was handed to \<open>sendmsg\<close>.
\<close>

theorem AcceptAndReject_no_frame_counterexample:
  "AcceptAndReject (quiet_env\<lparr>encode_rc := (\<lambda>n. 1)\<rparr>)
     (example_world [example_child 42 False False 7 0]) 0
   = \<lparr>children = [example_child 42 False False 7 0], gPipe = (4, 5),
      trace = [Close 9], tick = 2\<rparr>"
  by (simp add: AcceptAndReject_def Let_def close_fd_def quiet_env_def example_world_def
      iTermMultiServerProtocolEncodeMessageFromServer_def)

text \<open>
  C8 (amended): when \<open>accept\<close> gives a connection while a client is attached,
  the handling hands at most one frame to the transport for that connection: a
  Handshake with the version \<open>Rejected\<close>, no children and no descriptor
  attached, handed over exactly when the codec encodes it, and received by the
  peer exactly when \<open>sendmsg\<close> then accepts it. In every case the connection is
  closed afterwards, and that is all: the registry and the self-pipe are as
  before, and an iteration of \<open>SelectLoop\<close> in which only the listening socket
  is readable goes on to the next iteration with the client's descriptors
  unchanged.
\<close>

theorem AcceptAndReject_sends_one_rejection:
  assumes accepted: "0 \<le> accept_rc e (tick w)"
  shows "children (AcceptAndReject e w socket) = children w
    \<and> gPipe (AcceptAndReject e w socket) = gPipe w
    \<and> trace (AcceptAndReject e w socket) = trace w @
         (if encode_rc e (Suc (tick w)) = 0
          then [SendMsg (accept_rc e (tick w))
                  (Encoded (Handshake (iTermMultiServerProtocolVersionRejected e) 0 0)) None
                  (sendmsg_rc e (Suc (Suc (tick w))))]
          else [])
         @ [Close (accept_rc e (tick w))]
    \<and> List.map_filter sent_frame
         (drop (length (trace w)) (trace (AcceptAndReject e w socket)))
       = (if encode_rc e (Suc (tick w)) = 0 \<and> 0 \<le> ssize (sendmsg_rc e (Suc (Suc (tick w))))
          then [(accept_rc e (tick w),
                 Encoded (Handshake (iTermMultiServerProtocolVersionRejected e) 0 0), None)]
          else [])
    \<and> (select_rc e (tick w0) 1 \<and> \<not> select_rc e (tick w0) 0 \<and> \<not> select_rc e (tick w0) 2
         \<longrightarrow> SelectLoop (Suc n) e w0 acceptFd writeFd readFd
              = SelectLoop n e (AcceptAndReject e (w0\<lparr>tick := Suc (tick w0)\<rparr>) acceptFd)
                  acceptFd writeFd readFd)"
  using accepted
  by (simp add: AcceptAndReject_def Let_def close_fd_def List.map_filter_simps
      iTermMultiServerProtocolEncodeMessageFromServer_def
      iTermFileDescriptorServerSendMessage_def)

theorem AcceptAndReject_sends_one_rejection_witness:
  "children (AcceptAndReject quiet_env (example_world [example_child 42 False False 7 0]) 0)
     = [example_child 42 False False 7 0]
   \<and> trace (AcceptAndReject quiet_env (example_world [example_child 42 False False 7 0]) 0)
     = [SendMsg 9 (Encoded (Handshake (-1) 0 0)) None (SendWrote 1), Close 9]
   \<and> List.map_filter sent_frame
        (trace (AcceptAndReject quiet_env (example_world [example_child 42 False False 7 0]) 0))
     = [(9, Encoded (Handshake (-1) 0 0), None)]"
proof -
  have "0 \<le> accept_rc quiet_env (tick (example_world [example_child 42 False False 7 0]))"
    by (simp add: quiet_env_def)
  from AcceptAndReject_sends_one_rejection [OF this, of 0]
  show ?thesis
    by (simp add: quiet_env_def example_world_def)
qed

subsection \<open>C6: the burst of reports after a handshake\<close>

lemma ReportChild_effect:
  assumes "ReportChild e w fd c isLast = Returns (rc, w')"
  shows "children w' = children w
    \<and> (rc = 0 \<longrightarrow>
         trace w' = trace w @
           [SendMsg fd (Encoded (ReportChildMessage (PopulateReportChild c isLast)))
              (Some (masterFd c)) (sendmsg_rc e (Suc (tick w)))]
         \<and> 0 \<le> ssize (sendmsg_rc e (Suc (tick w))))"
  using assms
  by (auto simp: ReportChild_def Let_def
      iTermMultiServerProtocolEncodeMessageFromServer_def
      iTermFileDescriptorServerSendMessageAndFileDescriptor_def
      split: if_splits)

lemma enumerate_shift:
  "map (\<lambda>(j, c). f (int j) c) (enumerate (Suc n) xs)
     = map (\<lambda>(j, c). f (int j + 1) c) (enumerate n xs)"
  by (simp add: enumerate_Suc_eq split_def add.commute)

lemma report_loop_trace:
  assumes "report_loop e fd N k s w = Returns (0, w')" and "k \<le> length (children w)"
  shows "children w' = children w
    \<and> (\<exists>evs. trace w' = trace w @ evs
          \<and> length evs = length (filter (\<lambda>c. \<not> willTerminate c) (take k (children w)))
          \<and> List.map_filter report_of evs
              = map (\<lambda>(j, c). PopulateReportChild c (s + int j + 1 = N))
                  (enumerate 0 (rev (filter (\<lambda>c. \<not> willTerminate c) (take k (children w))))))"
  using assms
proof (induction k arbitrary: s w)
  case 0
  then show ?case by (simp add: List.map_filter_simps)
next
  case (Suc k)
  let ?c = "children w ! k"
  have k: "k < length (children w)" using Suc.prems(2) by simp
  have tk: "take (Suc k) (children w) = take k (children w) @ [?c]"
    using k by (simp add: take_Suc_conv_app_nth)
  show ?case
  proof (cases "willTerminate ?c")
    case True
    then have "report_loop e fd N k s w = Returns (0, w')"
      using Suc.prems(1) by simp
    from Suc.IH [OF this] k True show ?thesis
      by (simp add: tk)
  next
    case False
    obtain r w1 where rc: "ReportChild e w fd ?c (s + 1 = N) = Returns (r, w1)"
      using Suc.prems(1) False by (auto split: result.splits)
    have r0: "r = 0" and rest: "report_loop e fd N k (s + 1) w1 = Returns (0, w')"
      using Suc.prems(1) False rc by (auto split: if_splits)
    from ReportChild_effect [OF rc] r0
    have kids1: "children w1 = children w"
      and tr1: "trace w1 = trace w @
           [SendMsg fd (Encoded (ReportChildMessage (PopulateReportChild ?c (s + 1 = N))))
              (Some (masterFd ?c)) (sendmsg_rc e (Suc (tick w)))]"
      and ok1: "0 \<le> ssize (sendmsg_rc e (Suc (tick w)))"
      by simp_all
    from Suc.IH [OF rest] k kids1
    obtain evs where kids: "children w' = children w"
      and tr: "trace w' = trace w1 @ evs"
      and len: "length evs = length (filter (\<lambda>c. \<not> willTerminate c) (take k (children w)))"
      and reps: "List.map_filter report_of evs
              = map (\<lambda>(j, c). PopulateReportChild c (s + 1 + int j + 1 = N))
                  (enumerate 0 (rev (filter (\<lambda>c. \<not> willTerminate c) (take k (children w)))))"
      by auto
    have shift: "map (\<lambda>(j, c). PopulateReportChild c (s + int j + 1 = N))
                   (enumerate (Suc 0) (rev (filter (\<lambda>c. \<not> willTerminate c) (take k (children w)))))
               = map (\<lambda>(j, c). PopulateReportChild c (s + 1 + int j + 1 = N))
                   (enumerate 0 (rev (filter (\<lambda>c. \<not> willTerminate c) (take k (children w)))))"
      using enumerate_shift [of "\<lambda>j c. PopulateReportChild c (s + j + 1 = N)" 0]
      by (simp add: add.commute add.left_commute)
    show ?thesis
      using kids tr tr1 len reps ok1 False shift
      by (intro conjI exI [of _ "SendMsg fd (Encoded (ReportChildMessage
                (PopulateReportChild ?c (s + 1 = N)))) (Some (masterFd ?c))
                (sendmsg_rc e (Suc (tick w))) # evs"])
         (simp_all add: tk List.map_filter_simps)
  qed
qed

lemma one_last_flag:
  "length (filter (\<lambda>(j, c). Suc j = n + length xs) (enumerate n xs))
     = (if xs = [] then 0 else 1)"
proof (induction xs arbitrary: n)
  case Nil
  then show ?case by simp
next
  case (Cons x xs)
  have "length (filter (\<lambda>(j, c). Suc j = Suc n + length xs) (enumerate (Suc n) xs))
          = (if xs = [] then 0 else 1)"
    by (rule Cons.IH)
  then show ?case by auto
qed

lemma report_burst_flags:
  "length (filter report_isLast
      (map (\<lambda>(j, c). PopulateReportChild c (0 + int j + 1 = int (length rs))) (enumerate 0 rs)))
     = (if rs = [] then 0 else 1)"
proof -
  have eq: "report_isLast \<circ> (\<lambda>(j, c). PopulateReportChild c (0 + int j + 1 = int (length rs)))
              = (\<lambda>(j, c). Suc j = 0 + length rs)"
    by (auto simp: fun_eq_iff PopulateReportChild_def)
  have "length (filter report_isLast
      (map (\<lambda>(j, c). PopulateReportChild c (0 + int j + 1 = int (length rs))) (enumerate 0 rs)))
    = length (filter (\<lambda>(j, c). Suc j = 0 + length rs) (enumerate 0 rs))"
    unfolding filter_map length_map eq ..
  then show ?thesis
    using one_last_flag [of 0 rs] by simp
qed

lemma report_burst_pids:
  "map report_pid (map (\<lambda>(j, c). PopulateReportChild c (f j)) (enumerate n rs)) = map pid rs"
proof -
  have eq: "report_pid \<circ> (\<lambda>(j, c). PopulateReportChild c (f j)) = pid \<circ> snd"
    by (auto simp: fun_eq_iff PopulateReportChild_def)
  have "map report_pid (map (\<lambda>(j, c). PopulateReportChild c (f j)) (enumerate n rs))
          = map pid (map snd (enumerate n rs))"
    unfolding map_map eq ..
  then show ?thesis by simp
qed

text \<open>
  C6: when the handshake handler succeeds, what it sent is the Handshake reply
  followed by one event per reportable child and nothing else; each of these
  events is a ReportChild frame that \<open>sendmsg\<close> accepted, so their number is the
  count of reportable children at handshake time (the records with
  \<open>willTerminate\<close> false), they report those children from the back of the
  registry to the front, and the number of them with \<open>isLast\<close> set is 1 when
  the count is at least 1 and 0 when it is 0. The registry is unchanged.
\<close>

theorem HandleHandshake_report_burst:
  assumes ok: "HandleHandshake e w fd handshake = Returns (0, w')"
  shows "\<exists>a evs.
      trace w' = trace w @
        SendMsg fd (Encoded (Handshake (iTermMultiServerProtocolVersion1 e)
                      (GetNumberOfReportableChildren w) (getpid e))) None a # evs
    \<and> 0 \<le> ssize a
    \<and> GetNumberOfReportableChildren w
        = int (length (filter (\<lambda>c. \<not> willTerminate c) (children w)))
    \<and> length evs = nat (GetNumberOfReportableChildren w)
    \<and> length (List.map_filter report_of evs) = nat (GetNumberOfReportableChildren w)
    \<and> map report_pid (List.map_filter report_of evs)
        = map pid (rev (filter (\<lambda>c. \<not> willTerminate c) (children w)))
    \<and> length (filter report_isLast (List.map_filter report_of evs))
        = (if 1 \<le> GetNumberOfReportableChildren w then 1 else 0)
    \<and> children w' = children w"
proof -
  let ?n = "GetNumberOfReportableChildren w"
  let ?rs = "rev (filter (\<lambda>c. \<not> willTerminate c) (children w))"
  let ?a = "sendmsg_rc e (Suc (tick w))"
  let ?w2 = "w\<lparr>trace := trace w @
               [SendMsg fd (Encoded (Handshake (iTermMultiServerProtocolVersion1 e) ?n (getpid e)))
                  None ?a],
             tick := Suc (Suc (tick w))\<rparr>"
  have sent: "0 \<le> ssize ?a" and burst: "ReportChildren e ?w2 fd = Returns (0, w')"
    using ok
    by (auto simp: HandleHandshake_def Let_def
        iTermMultiServerProtocolEncodeMessageFromServer_def
        iTermFileDescriptorServerSendMessage_def
        split: if_splits)
  have n: "?n = int (length ?rs)"
    by (simp add: GetNumberOfReportableChildren_filter)
  have n2: "GetNumberOfReportableChildren ?w2 = int (length ?rs)"
    by (simp add: GetNumberOfReportableChildren_filter)
  have "report_loop e fd (int (length ?rs)) (length (children ?w2)) 0 ?w2 = Returns (0, w')"
    using burst unfolding ReportChildren_def n2 .
  from report_loop_trace [OF this]
  obtain evs where kids: "children w' = children w"
    and tr: "trace w' = trace ?w2 @ evs"
    and len: "length evs = length ?rs"
    and reps: "List.map_filter report_of evs
        = map (\<lambda>(j, c). PopulateReportChild c (0 + int j + 1 = int (length ?rs)))
            (enumerate 0 ?rs)"
    by auto
  have flags: "length (filter report_isLast (List.map_filter report_of evs))
                 = (if 1 \<le> ?n then 1 else 0)"
    unfolding reps report_burst_flags n by (auto simp: Suc_le_eq)
  have pids: "map report_pid (List.map_filter report_of evs) = map pid ?rs"
    unfolding reps by (rule report_burst_pids)
  have count: "length (List.map_filter report_of evs) = nat ?n"
    unfolding reps n by simp
  show ?thesis
    using kids tr len flags pids count sent n
    by (intro exI [of _ ?a] exI [of _ evs]) simp
qed

theorem HandleHandshake_report_burst_witness:
  "HandleHandshake quiet_env
     (example_world [example_child 41 False False 6 0, example_child 42 False True (-1) 0,
                     example_child 43 True False 8 9]) 1 \<lparr>maximumProtocolVersion = 1\<rparr>
   = Returns (0,
       \<lparr>children = [example_child 41 False False 6 0, example_child 42 False True (-1) 0,
                     example_child 43 True False 8 9],
        gPipe = (4, 5),
        trace = [SendMsg 1 (Encoded (Handshake 1 2 100)) None (SendWrote 1),
                 SendMsg 1 (Encoded (ReportChildMessage
                   (PopulateReportChild (example_child 43 True False 8 9) False))) (Some 8)
                   (SendWrote 1),
                 SendMsg 1 (Encoded (ReportChildMessage
                   (PopulateReportChild (example_child 41 False False 6 0) True))) (Some 6)
                   (SendWrote 1)],
        tick = 6\<rparr>)
   \<and> length (List.map_filter report_of
       [SendMsg 1 (Encoded (ReportChildMessage
          (PopulateReportChild (example_child 43 True False 8 9) False))) (Some 8) (SendWrote 1),
        SendMsg 1 (Encoded (ReportChildMessage
          (PopulateReportChild (example_child 41 False False 6 0) True))) (Some 6)
          (SendWrote 1)])
     = nat (GetNumberOfReportableChildren
         (example_world [example_child 41 False False 6 0, example_child 42 False True (-1) 0,
                         example_child 43 True False 8 9]))"
proof -
  let ?w = "example_world [example_child 41 False False 6 0, example_child 42 False True (-1) 0,
                       example_child 43 True False 8 9]"
  let ?evs = "[SendMsg 1 (Encoded (ReportChildMessage
          (PopulateReportChild (example_child 43 True False 8 9) False))) (Some 8) (SendWrote 1),
        SendMsg 1 (Encoded (ReportChildMessage
          (PopulateReportChild (example_child 41 False False 6 0) True))) (Some 6)
          (SendWrote 1)]"
  let ?w' = "\<lparr>children = [example_child 41 False False 6 0, example_child 42 False True (-1) 0,
                       example_child 43 True False 8 9],
          gPipe = (4, 5),
          trace = SendMsg 1 (Encoded (Handshake 1 2 100)) None (SendWrote 1) # ?evs,
          tick = 6\<rparr>"
  have run: "HandleHandshake quiet_env ?w 1 \<lparr>maximumProtocolVersion = 1\<rparr> = Returns (0, ?w')"
    by (simp add: HandleHandshake_def ReportChildren_def ReportChild_def
        GetNumberOfReportableChildren_def example_world_def example_child_def quiet_env_def
        Let_def iTermMultiServerProtocolEncodeMessageFromServer_def
        iTermFileDescriptorServerSendMessage_def
        iTermFileDescriptorServerSendMessageAndFileDescriptor_def numeral_3_eq_3)
  from HandleHandshake_report_burst [OF run]
  obtain a evs where "trace ?w' = trace ?w @
        SendMsg 1 (Encoded (Handshake (iTermMultiServerProtocolVersion1 quiet_env)
                      (GetNumberOfReportableChildren ?w) (getpid quiet_env))) None a # evs"
    and "length (List.map_filter report_of evs) = nat (GetNumberOfReportableChildren ?w)"
    by blast
  then have "length (List.map_filter report_of ?evs) = nat (GetNumberOfReportableChildren ?w)"
    by (auto simp: example_world_def)
  with run show ?thesis by simp
qed

subsection \<open>C9: the exit status and the socket path\<close>

lemma Run_result:
  assumes "iTermFileDescriptorMultiServerRun fuel e w socketPath socketFd writeFD readFD
             = Returns (st, w')"
  shows "st = 1 \<and> (\<exists>w2. w' = w2\<lparr>trace := trace w2 @ [Unlink socketPath]\<rparr>)"
  using assms
  by (auto simp: iTermFileDescriptorMultiServerRun_def split: result.splits if_splits)

text \<open>
  C9: whenever \<open>main\<close> returns, it returns 1, which is the exit status, and the
  last thing the daemon did was to unlink the socket path \<open>argv[1]\<close>. The two
  ways out named in C9 do return: when \<open>Initialize\<close> reports an error,
  \<open>iTermFileDescriptorMultiServerRun\<close> skips the main loop, unlinks and returns
  1; and when the attached phase ends with no reportable child, \<open>main_loop\<close>
  returns, after which the run unlinks and returns 1. (A failed \<open>assert\<close> aborts
  the process with a signal; it is not a return from \<open>main\<close> and gives no exit
  status.)
\<close>

theorem main_exit_status:
  "(main fuel e w args = Returns (st, w') \<longrightarrow>
      st = 1 \<and> st \<noteq> 0 \<and> length args = 2
      \<and> (\<exists>w2. w' = w2\<lparr>trace := trace w2 @ [Unlink (args ! 1)]\<rparr>))
   \<and> (Initialize fuel e (w\<lparr>tick := Suc (tick w)\<rparr>) (args ! 1) = Returns (rc, w1)
        \<and> rc \<noteq> 0 \<and> length args = 2 \<longrightarrow>
      main fuel e w args = Returns (1, w1\<lparr>trace := trace w1 @ [Unlink (args ! 1)]\<rparr>))
   \<and> (Initialize fuel e (w\<lparr>tick := Suc (tick w)\<rparr>) (args ! 1) = Returns (0, w1)
        \<and> MainLoop fuel e w1 (args ! 1) 0 1 3 = Returns w3 \<and> length args = 2 \<longrightarrow>
      main fuel e w args = Returns (1, w3\<lparr>trace := trace w3 @ [Unlink (args ! 1)]\<rparr>))
   \<and> (0 \<le> writeFd \<and> 0 \<le> readFd
        \<and> SelectLoop (Suc n) e wa acceptFd writeFd readFd = Returns wb
        \<and> GetNumberOfReportableChildren wb = 0 \<longrightarrow>
      main_loop (Suc n) e wa acceptFd writeFd readFd = Returns wb)"
proof (intro conjI impI)
  assume run: "main fuel e w args = Returns (st, w')"
  then have len: "length args = 2"
    by (auto simp: main_def split: if_splits)
  then obtain r where "iTermFileDescriptorMultiServerRun fuel e w (args ! 1) 0 1 3 = Returns (r, w')"
    and "st = 1"
    using run by (auto simp: main_def split: result.splits)
  with Run_result [of fuel e w "args ! 1" 0 1 3 r w'] len
  show "st = 1" "st \<noteq> 0" "length args = 2"
    "\<exists>w2. w' = w2\<lparr>trace := trace w2 @ [Unlink (args ! 1)]\<rparr>"
    by auto
next
  assume "Initialize fuel e (w\<lparr>tick := Suc (tick w)\<rparr>) (args ! 1) = Returns (rc, w1)
        \<and> rc \<noteq> 0 \<and> length args = 2"
  then show "main fuel e w args = Returns (1, w1\<lparr>trace := trace w1 @ [Unlink (args ! 1)]\<rparr>)"
    by (simp add: main_def iTermFileDescriptorMultiServerRun_def)
next
  assume "Initialize fuel e (w\<lparr>tick := Suc (tick w)\<rparr>) (args ! 1) = Returns (0, w1)
        \<and> MainLoop fuel e w1 (args ! 1) 0 1 3 = Returns w3 \<and> length args = 2"
  then show "main fuel e w args = Returns (1, w3\<lparr>trace := trace w3 @ [Unlink (args ! 1)]\<rparr>)"
    by (simp add: main_def iTermFileDescriptorMultiServerRun_def)
next
  assume "0 \<le> writeFd \<and> 0 \<le> readFd
        \<and> SelectLoop (Suc n) e wa acceptFd writeFd readFd = Returns wb
        \<and> GetNumberOfReportableChildren wb = 0"
  then show "main_loop (Suc n) e wa acceptFd writeFd readFd = Returns wb"
    by simp
qed

text \<open>
  A run that ends by itself: the first client hangs up before any child was
  launched (its read fails), the attached phase ends, no reportable child is
  left, and the daemon exits with status 1 after unlinking its socket. A run
  whose initialisation fails (\<open>pipe\<close> gives no descriptors) exits the same way.
\<close>

theorem main_exit_status_witness:
  "main 1 (quiet_env\<lparr>read_status_rc := (\<lambda>n. 1), select_rc := (\<lambda>n k. k = 2)\<rparr>)
     (example_world []) [''iTermServer'', ''/tmp/socket'']
   = Returns (1, \<lparr>children = [], gPipe = (10, 11),
                  trace = [Close 1, Unlink ''/tmp/socket''], tick = 23\<rparr>)
   \<and> main 1 (quiet_env\<lparr>pipe_rc := (\<lambda>n. None)\<rparr>)
     (example_world []) [''iTermServer'', ''/tmp/socket'']
   = Returns (1, \<lparr>children = [], gPipe = (4, 5),
                  trace = [Unlink ''/tmp/socket''], tick = 10\<rparr>)"
proof -
  let ?e = "quiet_env\<lparr>read_status_rc := (\<lambda>n. 1), select_rc := (\<lambda>n k. k = 2)\<rparr>"
  let ?e2 = "quiet_env\<lparr>pipe_rc := (\<lambda>n. None)\<rparr>"
  let ?args = "[''iTermServer'', ''/tmp/socket'']"
  let ?w1 = "\<lparr>children = [], gPipe = (10, 11), trace = [], tick = 17\<rparr>"
  let ?w3 = "\<lparr>children = [], gPipe = (10, 11), trace = [Close 1], tick = 23\<rparr>"
  let ?w4 = "\<lparr>children = [], gPipe = (4, 5), trace = [], tick = 10\<rparr>"
  have init: "Initialize 1 ?e ((example_world [])\<lparr>tick := Suc (tick (example_world []))\<rparr>)
                (?args ! 1) = Returns (0, ?w1)"
    by (simp add: Initialize_def MakeStandardFileDescriptorsNonBlocking_def MakePipe_def
        InitializeSignals_def MakeNonBlocking_def MakeBlocking_def example_world_def
        quiet_env_def Let_def)
  have loop: "MainLoop 1 ?e ?w1 (?args ! 1) 0 1 3 = Returns ?w3"
    by (simp add: MainLoop_def MakeBlocking_def ReadAndHandleRequest_def ReadRequest_def
        GetNumberOfReportableChildren_def close_fd_def quiet_env_def Let_def)
  have bad: "Initialize 1 ?e2 ((example_world [])\<lparr>tick := Suc (tick (example_world []))\<rparr>)
                (?args ! 1) = Returns (1, ?w4)"
    by (simp add: Initialize_def MakeStandardFileDescriptorsNonBlocking_def MakePipe_def
        MakeNonBlocking_def MakeBlocking_def example_world_def quiet_env_def Let_def)
  have "main 1 ?e (example_world []) ?args
          = Returns (1, ?w3\<lparr>trace := trace ?w3 @ [Unlink (?args ! 1)]\<rparr>)"
    using main_exit_status [where fuel = 1 and e = ?e and w = "example_world []"
        and args = ?args and ?w1.0 = ?w1 and ?w3.0 = ?w3] init loop
    by simp
  moreover have "main 1 ?e2 (example_world []) ?args
          = Returns (1, ?w4\<lparr>trace := trace ?w4 @ [Unlink (?args ! 1)]\<rparr>)"
    using main_exit_status [where fuel = 1 and e = ?e2 and w = "example_world []"
        and args = ?args and rc = 1 and ?w1.0 = ?w4] bad
    by simp
  ultimately show ?thesis by simp
qed

subsection \<open>C2: the reaper\<close>

lemma ReportTermination_effect:
  "ReportTermination e w fd p = (r, w') \<Longrightarrow>
     children w' = children w
     \<and> trace w' = trace w @
          (if encode_rc e (tick w) = 0
           then [SendMsg fd (Encoded (Termination p)) None (sendmsg_rc e (Suc (tick w)))]
           else [])
     \<and> r = (if encode_rc e (tick w) \<noteq> 0 then -1
            else if ssize (sendmsg_rc e (Suc (tick w))) = -1 then 1 else 0)"
  by (auto simp: ReportTermination_def Let_def
      iTermMultiServerProtocolEncodeMessageFromServer_def
      iTermFileDescriptorServerSendMessage_def
      split: if_splits)

lemma ssize_ok: "(0 \<le> ssize a) = (ssize a \<noteq> -1)"
  by (cases a) auto

lemma WaitPidNoHang_effect:
  "WaitPidNoHang n e w p = Returns (a, w1) \<Longrightarrow>
     children w1 = children w \<and> trace w1 = trace w \<and> gPipe w1 = gPipe w
     \<and> (\<exists>t. a = waitpid_rc e t p)"
  by (induction n arbitrary: w) (auto simp: Let_def split: if_splits)

lemma empty_pipe_effect:
  "empty_pipe n e w = Returns w1 \<Longrightarrow> children w1 = children w \<and> trace w1 = trace w"
  by (induction n arbitrary: w) (auto simp: Let_def split: if_splits)

lemma wait_loop_skip:
  "i < length (children w) \<Longrightarrow> terminated (children w ! i) \<Longrightarrow>
     wait_loop fuel e fd i w = wait_loop fuel e fd (Suc i) w"
  by (subst wait_loop.simps) simp

lemma wait_loop_stopped:
  "i < length (children w) \<Longrightarrow> \<not> terminated (children w ! i) \<Longrightarrow>
     WaitPidNoHang fuel e w (pid (children w ! i)) = Stopped s \<Longrightarrow>
     wait_loop fuel e fd i w = Stopped s"
  by (subst wait_loop.simps) simp

lemma wait_loop_not_reaped:
  "i < length (children w) \<Longrightarrow> \<not> terminated (children w ! i) \<Longrightarrow>
     WaitPidNoHang fuel e w (pid (children w ! i)) = Returns (a, w1) \<Longrightarrow>
     \<not> 0 < waitpid_result a \<Longrightarrow>
     wait_loop fuel e fd i w
       = wait_loop fuel e fd (Suc i)
           (case a of
              WaitReaped p st \<Rightarrow>
                w1\<lparr>children := (children w1)[i := (children w1 ! i)\<lparr>status := st\<rparr>]\<rparr>
            | WaitNothing \<Rightarrow> w1
            | WaitFailed err \<Rightarrow> w1)"
  by (subst wait_loop.simps) (simp add: Let_def)

lemma wait_loop_reaped:
  "i < length (children w) \<Longrightarrow> \<not> terminated (children w ! i) \<Longrightarrow>
     WaitPidNoHang fuel e w (pid (children w ! i)) = Returns (WaitReaped p st, w1) \<Longrightarrow>
     0 < p \<Longrightarrow>
     wait_loop fuel e fd i w
       = (let w3 = w1\<lparr>children := (children w1)[i :=
                       (children w1 ! i)\<lparr>status := st, terminated := True\<rparr>]\<rparr>
          in if \<not> willTerminate (children w1 ! i) \<and> 0 \<le> fd then
               (case ReportTermination e w3 fd (pid (children w1 ! i)) of
                  (r, w4) \<Rightarrow>
                    if r \<noteq> 0 then Returns (-1, w4)
                    else wait_loop fuel e fd (Suc i) w4)
             else wait_loop fuel e fd (Suc i) w3)"
  by (subst wait_loop.simps, frule WaitPidNoHang_children)
     (simp add: Let_def split: prod.splits)

lemma wait_loop_step:
  assumes i: "i < length (children w)"
    and run: "wait_loop fuel e fd i w = Returns (rc, w')"
  shows "\<exists>wn evs.
      length (children wn) = length (children w)
    \<and> (\<forall>j. j \<noteq> i \<longrightarrow> children wn ! j = children w ! j)
    \<and> children wn ! i = (children w ! i)\<lparr>status := status (children wn ! i),
                                          terminated := terminated (children wn ! i)\<rparr>
    \<and> (terminated (children w ! i) \<longrightarrow> children wn ! i = children w ! i)
    \<and> (\<not> terminated (children w ! i) \<and> terminated (children wn ! i) \<longrightarrow>
         (\<exists>t p. 0 < p \<and> waitpid_rc e t (pid (children w ! i))
                           = WaitReaped p (status (children wn ! i))))
    \<and> trace wn = trace w @ evs
    \<and> (\<forall>ev\<in>set evs. \<exists>a. ev = SendMsg fd (Encoded (Termination (pid (children w ! i)))) None a)
    \<and> ((wait_loop fuel e fd (Suc i) wn = Returns (rc, w')
         \<and> (if \<not> terminated (children w ! i) \<and> terminated (children wn ! i)
                \<and> \<not> willTerminate (children w ! i) \<and> 0 \<le> fd
             then length evs = 1
                  \<and> List.map_filter termination_of evs = [pid (children w ! i)]
             else evs = []))
        \<or> (rc = -1 \<and> w' = wn
            \<and> \<not> terminated (children w ! i) \<and> terminated (children wn ! i)
            \<and> \<not> willTerminate (children w ! i) \<and> 0 \<le> fd
            \<and> List.map_filter termination_of evs = []))"
proof (cases "terminated (children w ! i)")
  case True
  then have "wait_loop fuel e fd (Suc i) w = Returns (rc, w')"
    using i run by (simp add: wait_loop_skip)
  with True show ?thesis
    by (intro exI [of _ w] exI [of _ "[]"]) simp
next
  case False
  note alive = False
  let ?c = "children w ! i"
  obtain a w1 where wp: "WaitPidNoHang fuel e w (pid ?c) = Returns (a, w1)"
  proof (cases "WaitPidNoHang fuel e w (pid ?c)")
    case (Returns x)
    then show ?thesis using that by (cases x) auto
  next
    case (Stopped s)
    then show ?thesis using wait_loop_stopped [OF i alive] run by simp
  qed
  from WaitPidNoHang_effect [OF wp]
  obtain t where w1: "children w1 = children w" "trace w1 = trace w"
    and at: "a = waitpid_rc e t (pid ?c)"
    by blast
  show ?thesis
  proof (cases "0 < waitpid_result a")
    case False
    note unreaped = False
    let ?wn = "case a of
                 WaitReaped p st \<Rightarrow> w1\<lparr>children := (children w1)[i := (children w1 ! i)\<lparr>status := st\<rparr>]\<rparr>
               | WaitNothing \<Rightarrow> w1
               | WaitFailed err \<Rightarrow> w1"
    have next_step: "wait_loop fuel e fd (Suc i) ?wn = Returns (rc, w')"
      using wait_loop_not_reaped [OF i alive wp unreaped] run by simp
    have "length (children ?wn) = length (children w)"
      and "\<forall>j. j \<noteq> i \<longrightarrow> children ?wn ! j = children w ! j"
      and "children ?wn ! i = ?c\<lparr>status := status (children ?wn ! i),
                                 terminated := terminated (children ?wn ! i)\<rparr>"
      and "\<not> terminated (children ?wn ! i)"
      and "trace ?wn = trace w @ []"
      using i w1 alive by (auto split: waitpid_answer.splits)
    with next_step alive show ?thesis
      by (intro exI [of _ ?wn] exI [of _ "[]"]) simp
  next
    case True
    then obtain p st where a: "a = WaitReaped p st" and p: "0 < p"
      by (cases a) auto
    let ?w3 = "w1\<lparr>children := (children w)[i := ?c\<lparr>status := st, terminated := True\<rparr>]\<rparr>"
    note unfolded = wait_loop_reaped [OF i alive wp [unfolded a] p, of fd, unfolded w1 Let_def]
    have kids3: "length (children ?w3) = length (children w)"
      "\<forall>j. j \<noteq> i \<longrightarrow> children ?w3 ! j = children w ! j"
      "children ?w3 ! i = ?c\<lparr>status := st, terminated := True\<rparr>"
      using i by simp_all
    have src: "\<exists>t p. 0 < p \<and> waitpid_rc e t (pid ?c) = WaitReaped p st"
      using at a p by metis
    show ?thesis
    proof (cases "\<not> willTerminate ?c \<and> 0 \<le> fd")
      case False
      note quiet = False
      have next_step: "wait_loop fuel e fd (Suc i) ?w3 = Returns (rc, w')"
        using unfolded run quiet by auto
      show ?thesis
        using kids3 src next_step alive quiet w1
        by (intro exI [of _ ?w3] exI [of _ "[]"]) auto
    next
      case True
      note owed = True
      obtain r w4 where rt: "ReportTermination e ?w3 fd (pid ?c) = (r, w4)"
        by (cases "ReportTermination e ?w3 fd (pid ?c)")
      let ?evs = "if encode_rc e (tick ?w3) = 0
           then [SendMsg fd (Encoded (Termination (pid ?c))) None (sendmsg_rc e (Suc (tick ?w3)))]
           else []"
      from ReportTermination_effect [OF rt]
      have kids4: "children w4 = children ?w3"
        and tr4: "trace w4 = trace w @ ?evs"
        and r: "r = (if encode_rc e (tick ?w3) \<noteq> 0 then -1
            else if ssize (sendmsg_rc e (Suc (tick ?w3))) = -1 then 1 else 0)"
        using w1 by simp_all
      have branch: "(r \<noteq> 0 \<and> rc = -1 \<and> w' = w4)
                  \<or> (r = 0 \<and> wait_loop fuel e fd (Suc i) w4 = Returns (rc, w'))"
        using unfolded run owed rt w1 by (auto split: if_splits)
      have evs_ok: "r = 0 \<Longrightarrow> length ?evs = 1
          \<and> List.map_filter termination_of ?evs = [pid ?c]"
        using r by (auto simp: List.map_filter_simps ssize_ok split: if_splits)
      have evs_bad: "r \<noteq> 0 \<Longrightarrow> List.map_filter termination_of ?evs = []"
        using r by (auto simp: List.map_filter_simps ssize_ok split: if_splits)
      show ?thesis
      proof (cases "r = 0")
        case True
        with branch have nxt: "wait_loop fuel e fd (Suc i) w4 = Returns (rc, w')"
          by simp
        from evs_ok [OF True] have ev: "length ?evs = 1"
          "List.map_filter termination_of ?evs = [pid ?c]"
          by simp_all
        show ?thesis
          using kids3 kids4 tr4 src nxt ev alive owed
          by (intro exI [of _ w4] exI [of _ ?evs] conjI disjI1) simp_all
      next
        case False
        with branch have stop: "rc = -1" "w' = w4"
          by simp_all
        note ev = evs_bad [OF False]
        show ?thesis
          using kids3 kids4 tr4 src stop ev alive owed
          by (intro exI [of _ w4] exI [of _ ?evs] conjI disjI2) simp_all
      qed
    qed
  qed
qed


lemma wait_loop_done:
  "\<not> i < length (children w) \<Longrightarrow> wait_loop fuel e fd i w = Returns (0, w)"
  by (subst wait_loop.simps) simp

lemma map_filter_append:
  "List.map_filter f (xs @ ys) = List.map_filter f xs @ List.map_filter f ys"
  by (simp add: List.map_filter_def)

lemma owed_terminations_self: "owed_terminations w w i = []"
  by (simp add: owed_terminations_def newly_reaped_def)

lemma owed_terminations_step:
  assumes i: "i < length (children w)"
    and len: "length (children wn) = length (children w)"
    and same: "\<forall>j. j \<noteq> i \<longrightarrow> children wn ! j = children w ! j"
  shows "owed_terminations w w' i
     = (if newly_reaped w w' i \<and> \<not> willTerminate (children w ! i)
        then [pid (children w ! i)] else [])
       @ owed_terminations wn w' (Suc i)"
proof -
  have split: "[i..<length (children w)] = i # [Suc i..<length (children w)]"
    using i by (simp add: upt_conv_Cons)
  have tail_filter: "filter (\<lambda>j. newly_reaped w w' j \<and> \<not> willTerminate (children w ! j))
                [Suc i..<length (children w)]
            = filter (\<lambda>j. newly_reaped wn w' j \<and> \<not> willTerminate (children wn ! j))
                [Suc i..<length (children w)]"
    using same by (intro filter_cong) (auto simp: newly_reaped_def)
  have tail: "map (\<lambda>j. pid (children w ! j))
                (filter (\<lambda>j. newly_reaped w w' j \<and> \<not> willTerminate (children w ! j))
                   [Suc i..<length (children w)])
            = owed_terminations wn w' (Suc i)"
    unfolding owed_terminations_def len tail_filter
    using same by (intro map_cong) auto
  show ?thesis
    unfolding owed_terminations_def [of w w' i] split
    using tail by simp
qed

lemma wait_loop_pass:
  assumes "wait_loop fuel e fd i w = Returns (rc, w')"
  shows "length (children w') = length (children w)
    \<and> (\<forall>j<length (children w).
          children w' ! j = (children w ! j)\<lparr>status := status (children w' ! j),
                                             terminated := terminated (children w' ! j)\<rparr>
        \<and> (j < i \<or> terminated (children w ! j) \<longrightarrow> children w' ! j = children w ! j)
        \<and> (newly_reaped w w' j \<longrightarrow>
             (\<exists>t p. 0 < p \<and> waitpid_rc e t (pid (children w ! j))
                               = WaitReaped p (status (children w' ! j)))))
    \<and> (\<exists>evs. trace w' = trace w @ evs
         \<and> (rc = 0 \<or> rc = -1)
         \<and> (fd < 0 \<longrightarrow> evs = [] \<and> rc = 0)
         \<and> (rc = 0 \<and> 0 \<le> fd \<longrightarrow>
               List.map_filter termination_of evs = owed_terminations w w' i
               \<and> length evs = length (owed_terminations w w' i))
         \<and> (rc = -1 \<longrightarrow>
               owed_terminations w w' i \<noteq> []
               \<and> List.map_filter termination_of evs = butlast (owed_terminations w w' i)))"
  using assms
proof (induction "length (children w) - i" arbitrary: i w)
  case 0
  then have "\<not> i < length (children w)" by simp
  then have "wait_loop fuel e fd i w = Returns (0, w)" by (rule wait_loop_done)
  with "0.prems" have eq: "rc = 0" "w' = w" by simp_all
  show ?case
    unfolding eq by (simp add: owed_terminations_self newly_reaped_def)
next
  case (Suc n)
  then have i: "i < length (children w)" by simp
  from wait_loop_step [OF i Suc.prems]
  obtain wn evs1 where len: "length (children wn) = length (children w)"
    and same: "\<forall>j. j \<noteq> i \<longrightarrow> children wn ! j = children w ! j"
    and at_i: "children wn ! i = (children w ! i)\<lparr>status := status (children wn ! i),
                                          terminated := terminated (children wn ! i)\<rparr>"
    and dead_i: "terminated (children w ! i) \<longrightarrow> children wn ! i = children w ! i"
    and src_i: "\<not> terminated (children w ! i) \<and> terminated (children wn ! i) \<longrightarrow>
         (\<exists>t p. 0 < p \<and> waitpid_rc e t (pid (children w ! i))
                           = WaitReaped p (status (children wn ! i)))"
    and tr1: "trace wn = trace w @ evs1"
    and branch: "(wait_loop fuel e fd (Suc i) wn = Returns (rc, w')
         \<and> (if \<not> terminated (children w ! i) \<and> terminated (children wn ! i)
                \<and> \<not> willTerminate (children w ! i) \<and> 0 \<le> fd
             then length evs1 = 1
                  \<and> List.map_filter termination_of evs1 = [pid (children w ! i)]
             else evs1 = []))
        \<or> (rc = -1 \<and> w' = wn
            \<and> \<not> terminated (children w ! i) \<and> terminated (children wn ! i)
            \<and> \<not> willTerminate (children w ! i) \<and> 0 \<le> fd
            \<and> List.map_filter termination_of evs1 = [])"
    by blast
  note owed = owed_terminations_step [OF i len same, of w']
  from branch show ?case
  proof (elim disjE conjE)
    assume stop: "rc = -1" "w' = wn"
      and reaped: "\<not> terminated (children w ! i)" "terminated (children wn ! i)"
        "\<not> willTerminate (children w ! i)" "0 \<le> fd"
      and none: "List.map_filter termination_of evs1 = []"
    have owed_here: "owed_terminations w wn i = [pid (children w ! i)]"
      using owed_terminations_step [OF i len same, of wn] reaped
      by (simp add: owed_terminations_self newly_reaped_def)
    have kids: "\<forall>j<length (children w).
          children wn ! j = (children w ! j)\<lparr>status := status (children wn ! j),
                                             terminated := terminated (children wn ! j)\<rparr>
        \<and> (j < i \<or> terminated (children w ! j) \<longrightarrow> children wn ! j = children w ! j)
        \<and> (newly_reaped w wn j \<longrightarrow>
             (\<exists>t p. 0 < p \<and> waitpid_rc e t (pid (children w ! j))
                               = WaitReaped p (status (children wn ! j))))"
    proof (intro allI impI)
      fix j assume "j < length (children w)"
      show "children wn ! j = (children w ! j)\<lparr>status := status (children wn ! j),
                                             terminated := terminated (children wn ! j)\<rparr>
        \<and> (j < i \<or> terminated (children w ! j) \<longrightarrow> children wn ! j = children w ! j)
        \<and> (newly_reaped w wn j \<longrightarrow>
             (\<exists>t p. 0 < p \<and> waitpid_rc e t (pid (children w ! j))
                               = WaitReaped p (status (children wn ! j))))"
      proof (cases "j = i")
        case True
        then show ?thesis using at_i dead_i src_i reaped by (simp add: newly_reaped_def)
      next
        case False
        then show ?thesis using same by (simp add: newly_reaped_def)
      qed
    qed
    show ?case
      unfolding stop
      using len kids tr1 none owed_here reaped
      by (intro conjI exI [of _ evs1]) simp_all
  next
    assume nxt: "wait_loop fuel e fd (Suc i) wn = Returns (rc, w')"
      and ev1: "if \<not> terminated (children w ! i) \<and> terminated (children wn ! i)
                \<and> \<not> willTerminate (children w ! i) \<and> 0 \<le> fd
             then length evs1 = 1
                  \<and> List.map_filter termination_of evs1 = [pid (children w ! i)]
             else evs1 = []"
    have "n = length (children wn) - Suc i"
      using Suc.hyps(2) len by simp
    from Suc.hyps(1) [OF this nxt]
    obtain evs2 where len': "length (children w') = length (children wn)"
      and kids': "\<forall>j<length (children wn).
          children w' ! j = (children wn ! j)\<lparr>status := status (children w' ! j),
                                             terminated := terminated (children w' ! j)\<rparr>
        \<and> (j < Suc i \<or> terminated (children wn ! j) \<longrightarrow> children w' ! j = children wn ! j)
        \<and> (newly_reaped wn w' j \<longrightarrow>
             (\<exists>t p. 0 < p \<and> waitpid_rc e t (pid (children wn ! j))
                               = WaitReaped p (status (children w' ! j))))"
      and tr2: "trace w' = trace wn @ evs2"
      and rcs: "rc = 0 \<or> rc = -1"
      and quiet: "fd < 0 \<longrightarrow> evs2 = [] \<and> rc = 0"
      and good: "rc = 0 \<and> 0 \<le> fd \<longrightarrow>
               List.map_filter termination_of evs2 = owed_terminations wn w' (Suc i)
               \<and> length evs2 = length (owed_terminations wn w' (Suc i))"
      and bad: "rc = -1 \<longrightarrow>
               owed_terminations wn w' (Suc i) \<noteq> []
               \<and> List.map_filter termination_of evs2 = butlast (owed_terminations wn w' (Suc i))"
      by blast
    have final_i: "children w' ! i = children wn ! i"
      using kids' i len by simp
    have reaped_i: "newly_reaped w w' i
                      = (\<not> terminated (children w ! i) \<and> terminated (children wn ! i))"
      by (simp add: newly_reaped_def final_i)
    have kids: "\<forall>j<length (children w).
          children w' ! j = (children w ! j)\<lparr>status := status (children w' ! j),
                                             terminated := terminated (children w' ! j)\<rparr>
        \<and> (j < i \<or> terminated (children w ! j) \<longrightarrow> children w' ! j = children w ! j)
        \<and> (newly_reaped w w' j \<longrightarrow>
             (\<exists>t p. 0 < p \<and> waitpid_rc e t (pid (children w ! j))
                               = WaitReaped p (status (children w' ! j))))"
    proof (intro allI impI)
      fix j assume j: "j < length (children w)"
      show "children w' ! j = (children w ! j)\<lparr>status := status (children w' ! j),
                                             terminated := terminated (children w' ! j)\<rparr>
        \<and> (j < i \<or> terminated (children w ! j) \<longrightarrow> children w' ! j = children w ! j)
        \<and> (newly_reaped w w' j \<longrightarrow>
             (\<exists>t p. 0 < p \<and> waitpid_rc e t (pid (children w ! j))
                               = WaitReaped p (status (children w' ! j))))"
      proof (cases "j = i")
        case True
        then show ?thesis
          using at_i dead_i src_i final_i by (simp add: newly_reaped_def)
      next
        case False
        then have eq: "children wn ! j = children w ! j" using same by simp
        have "j < length (children wn)" using j len by simp
        with kids' have "children w' ! j = (children wn ! j)\<lparr>status := status (children w' ! j),
                                             terminated := terminated (children w' ! j)\<rparr>
          \<and> (j < Suc i \<or> terminated (children wn ! j) \<longrightarrow> children w' ! j = children wn ! j)
          \<and> (newly_reaped wn w' j \<longrightarrow>
             (\<exists>t p. 0 < p \<and> waitpid_rc e t (pid (children wn ! j))
                               = WaitReaped p (status (children w' ! j))))"
          by blast
        then show ?thesis
          using False unfolding eq newly_reaped_def by auto
      qed
    qed
    have tr: "trace w' = trace w @ (evs1 @ evs2)"
      using tr1 tr2 by simp
    have quiet': "fd < 0 \<longrightarrow> evs1 @ evs2 = [] \<and> rc = 0"
      using quiet ev1 by (auto split: if_splits)
    have good': "rc = 0 \<and> 0 \<le> fd \<longrightarrow>
               List.map_filter termination_of (evs1 @ evs2) = owed_terminations w w' i
               \<and> length (evs1 @ evs2) = length (owed_terminations w w' i)"
      using good ev1 unfolding owed reaped_i map_filter_append
      by (auto simp: List.map_filter_simps split: if_splits)
    have fd_ok: "rc = -1 \<longrightarrow> 0 \<le> fd"
      using quiet by auto
    have bad': "rc = -1 \<longrightarrow>
               owed_terminations w w' i \<noteq> []
               \<and> List.map_filter termination_of (evs1 @ evs2) = butlast (owed_terminations w w' i)"
      using bad ev1 fd_ok unfolding owed reaped_i map_filter_append
      by (auto simp: List.map_filter_simps butlast_append split: if_splits)
    show ?case
      using len len' kids tr rcs quiet' good' bad'
      by (intro conjI exI [of _ "evs1 @ evs2"]) simp_all
  qed
qed

lemma wait_loop_events:
  assumes "wait_loop fuel e fd i w = Returns (rc, w')"
  shows "\<exists>evs. trace w' = trace w @ evs
          \<and> (\<forall>ev\<in>set evs. \<exists>p a. ev = SendMsg fd (Encoded (Termination p)) None a)"
  using assms
proof (induction "length (children w) - i" arbitrary: i w)
  case 0
  then have "\<not> i < length (children w)" by simp
  then have "wait_loop fuel e fd i w = Returns (0, w)" by (rule wait_loop_done)
  with "0.prems" have "w' = w" by simp
  then show ?case by simp
next
  case (Suc n)
  then have i: "i < length (children w)" by simp
  from wait_loop_step [OF i Suc.prems]
  obtain wn evs1 where len: "length (children wn) = length (children w)"
    and tr1: "trace wn = trace w @ evs1"
    and shape1: "\<forall>ev\<in>set evs1. \<exists>a. ev = SendMsg fd (Encoded (Termination (pid (children w ! i)))) None a"
    and branch: "wait_loop fuel e fd (Suc i) wn = Returns (rc, w') \<or> w' = wn"
    by blast
  from branch show ?case
  proof
    assume "w' = wn"
    with tr1 shape1 show ?thesis
      by (intro exI [of _ evs1]) auto
  next
    assume nxt: "wait_loop fuel e fd (Suc i) wn = Returns (rc, w')"
    have "n = length (children wn) - Suc i"
      using Suc.hyps(2) len by simp
    from Suc.hyps(1) [OF this nxt]
    obtain evs2 where tr2: "trace w' = trace wn @ evs2"
      and shape2: "\<forall>ev\<in>set evs2. \<exists>p a. ev = SendMsg fd (Encoded (Termination p)) None a"
      by blast
    have "\<forall>ev\<in>set (evs1 @ evs2). \<exists>p a. ev = SendMsg fd (Encoded (Termination p)) None a"
      using shape1 shape2 by auto
    with tr1 tr2 show ?thesis
      by (intro exI [of _ "evs1 @ evs2"]) simp
  qed
qed

lemma frames_of_terminations:
  "\<forall>ev\<in>set evs. \<exists>p a. ev = SendMsg fd (Encoded (Termination p)) None a \<Longrightarrow>
     List.map_filter sent_frame evs
       = map (\<lambda>p. (fd, Encoded (Termination p), None)) (List.map_filter termination_of evs)"
  by (induction evs) (auto simp: List.map_filter_simps)

lemma reaped_child_marked:
  assumes i: "i < length (children w)"
    and alive: "\<not> terminated (children w ! i)"
    and wp: "WaitPidNoHang fuel e w (pid (children w ! i)) = Returns (WaitReaped p st, w1)"
    and p: "0 < p"
    and run: "wait_loop fuel e fd i w = Returns (rc, w')"
  shows "children w' ! i = (children w ! i)\<lparr>status := st, terminated := True\<rparr>"
proof -
  let ?c = "children w ! i"
  let ?w3 = "w1\<lparr>children := (children w)[i := ?c\<lparr>status := st, terminated := True\<rparr>]\<rparr>"
  have w1: "children w1 = children w"
    using WaitPidNoHang_children [OF wp] .
  note unfolded = wait_loop_reaped [OF i alive wp p, of fd, unfolded w1 Let_def]
  obtain r w4 where rt: "ReportTermination e ?w3 fd (pid ?c) = (r, w4)"
    by (cases "ReportTermination e ?w3 fd (pid ?c)")
  have kids4: "children w4 = children ?w3"
    using ReportTermination_effect [OF rt] by simp
  have here: "children ?w3 ! i = ?c\<lparr>status := st, terminated := True\<rparr>"
    using i by simp
  have "(w' = w4) \<or> wait_loop fuel e fd (Suc i) w4 = Returns (rc, w')
          \<or> wait_loop fuel e fd (Suc i) ?w3 = Returns (rc, w')"
    using unfolded run rt by (auto split: if_splits)
  then show ?thesis
  proof (elim disjE)
    assume "w' = w4"
    then show ?thesis using kids4 here by simp
  next
    assume "wait_loop fuel e fd (Suc i) w4 = Returns (rc, w')"
    from wait_loop_pass [OF this] have "children w' ! i = children w4 ! i"
      using i kids4 by simp
    then show ?thesis using kids4 here by simp
  next
    assume "wait_loop fuel e fd (Suc i) ?w3 = Returns (rc, w')"
    from wait_loop_pass [OF this] have "children w' ! i = children ?w3 ! i"
      using i by simp
    then show ?thesis using here by simp
  qed
qed

lemma WaitPidNoHang_returns:
  "waitpid_rc e (tick w) p \<noteq> WaitFailed EINTR \<Longrightarrow>
     WaitPidNoHang (Suc n) e w p = Returns (waitpid_rc e (tick w) p, w\<lparr>tick := Suc (tick w)\<rparr>)"
  by (simp add: Let_def)

lemma wait_loop_returns:
  assumes calm: "\<forall>t p. waitpid_rc e t p \<noteq> WaitFailed EINTR"
  shows "\<exists>rc w'. wait_loop (Suc n) e fd i w = Returns (rc, w')"
proof (induction "length (children w) - i" arbitrary: i w)
  case 0
  then show ?case by (simp add: wait_loop_done)
next
  case (Suc m)
  then have i: "i < length (children w)" by simp
  let ?c = "children w ! i"
  let ?a = "waitpid_rc e (tick w) (pid ?c)"
  let ?w1 = "w\<lparr>tick := Suc (tick w)\<rparr>"
  have ih: "\<exists>rc w'. wait_loop (Suc n) e fd (Suc i) v = Returns (rc, w')"
    if "length (children v) = length (children w)" for v
    using Suc.hyps(1) [of v "Suc i"] Suc.hyps(2) that by simp
  show ?case
  proof (cases "terminated ?c")
    case True
    then show ?thesis using ih [of w] i by (simp add: wait_loop_skip)
  next
    case False
    have wp: "WaitPidNoHang (Suc n) e w (pid ?c) = Returns (?a, ?w1)"
      using calm by (intro WaitPidNoHang_returns) simp
    show ?thesis
    proof (cases "0 < waitpid_result ?a")
      case unreaped: False
      show ?thesis
        unfolding wait_loop_not_reaped [OF i False wp unreaped]
        by (rule ih) (simp split: waitpid_answer.splits)
    next
      case True
      then obtain p st where a: "?a = WaitReaped p st" and p: "0 < p"
        by (cases ?a) auto
      let ?w3 = "?w1\<lparr>children := (children ?w1)[i :=
                       (children ?w1 ! i)\<lparr>status := st, terminated := True\<rparr>]\<rparr>"
      obtain r w4 where rt: "ReportTermination e ?w3 fd (pid (children ?w1 ! i)) = (r, w4)"
        by (cases "ReportTermination e ?w3 fd (pid (children ?w1 ! i))")
      have len4: "length (children w4) = length (children w)"
        using ReportTermination_effect [OF rt] by simp
      show ?thesis
        unfolding wait_loop_reaped [OF i False wp [unfolded a] p] Let_def
        using ih [of ?w3] ih [of w4] len4 rt by auto
    qed
  qed
qed

text \<open>
  C2: a pass of the reaper (\<open>WaitForAllProcesses\<close>) that returns changes
  nothing of a record but \<open>status\<close> and \<open>terminated\<close>, and leaves a record that
  was already terminated alone, so each child is reaped in at most one pass. A
  record is newly terminated only when \<open>waitpid\<close> returned a positive pid for
  it, and then \<open>status\<close> is the status that call stored; conversely, in the
  iteration for a live record, a positive answer of \<open>waitpid\<close> stores the status
  and sets \<open>terminated\<close>. What the pass sends is decided by \<open>willTerminate\<close> and
  the connection: every event of the pass is a Termination message handed to
  \<open>sendmsg\<close> on \<open>connectionFd\<close>, the attached client's write descriptor, with
  no descriptor attached; without a client (\<open>connectionFd < 0\<close>) there is no
  event; with a client and return value 0, the events are exactly one
  Termination frame, accepted by \<open>sendmsg\<close> on \<open>connectionFd\<close>, for each record
  reaped in the pass that was not disowned, in registry order, and none for a
  disowned one. The return value is 0 or -1, and -1 means that the emission for
  the last record reaped failed (every earlier one was delivered on
  \<open>connectionFd\<close>); in \<open>SelectLoop\<close> that return value ends the attached phase:
  the loop returns after closing the write descriptor. The pass returns whenever
  emptying the pipe does and \<open>waitpid\<close> is not interrupted forever (here:
  never).
\<close>

theorem WaitForAllProcesses_reaps_and_reports:
  "(WaitForAllProcesses fuel e w connectionFd = Returns (rc, w') \<longrightarrow>
      length (children w') = length (children w)
      \<and> (\<forall>j<length (children w).
            children w' ! j = (children w ! j)\<lparr>status := status (children w' ! j),
                                               terminated := terminated (children w' ! j)\<rparr>
          \<and> (terminated (children w ! j) \<longrightarrow> children w' ! j = children w ! j)
          \<and> (newly_reaped w w' j \<longrightarrow>
               (\<exists>t p. 0 < p \<and> waitpid_rc e t (pid (children w ! j))
                                 = WaitReaped p (status (children w' ! j)))))
      \<and> (\<exists>evs. trace w' = trace w @ evs
           \<and> (\<forall>ev\<in>set evs. \<exists>p a. ev = SendMsg connectionFd (Encoded (Termination p)) None a)
           \<and> (rc = 0 \<or> rc = -1)
           \<and> (connectionFd < 0 \<longrightarrow> evs = [] \<and> rc = 0)
           \<and> (rc = 0 \<and> 0 \<le> connectionFd \<longrightarrow>
                 List.map_filter termination_of evs = owed_terminations w w' 0
                 \<and> length evs = length (owed_terminations w w' 0)
                 \<and> List.map_filter sent_frame evs
                     = map (\<lambda>p. (connectionFd, Encoded (Termination p), None))
                         (owed_terminations w w' 0))
           \<and> (rc = -1 \<longrightarrow>
                 owed_terminations w w' 0 \<noteq> []
                 \<and> List.map_filter termination_of evs = butlast (owed_terminations w w' 0)
                 \<and> List.map_filter sent_frame evs
                     = map (\<lambda>p. (connectionFd, Encoded (Termination p), None))
                         (butlast (owed_terminations w w' 0)))))
   \<and> (i < length (children wa) \<and> \<not> terminated (children wa ! i)
        \<and> WaitPidNoHang fuel e wa (pid (children wa ! i)) = Returns (WaitReaped p st, wb)
        \<and> 0 < p \<and> wait_loop fuel e connectionFd i wa = Returns (rc2, wc) \<longrightarrow>
      children wc ! i = (children wa ! i)\<lparr>status := st, terminated := True\<rparr>)
   \<and> (select_rc e (tick w0) 0 \<and> \<not> select_rc e (tick w0) 2
        \<and> WaitForAllProcesses (Suc n) e (w0\<lparr>tick := Suc (tick w0)\<rparr>) writeFd = Returns (r, wr)
        \<and> r \<noteq> 0 \<longrightarrow>
      SelectLoop (Suc n) e w0 acceptFd writeFd readFd = Returns (close_fd wr writeFd))
   \<and> (select_rc e (tick w0) 0 \<and> select_rc e (tick w0) 2
        \<and> ReadAndHandleRequest e (w0\<lparr>tick := Suc (tick w0)\<rparr>) readFd writeFd = Returns (0, wq)
        \<and> WaitForAllProcesses (Suc n) e wq writeFd = Returns (r, wr)
        \<and> r \<noteq> 0 \<longrightarrow>
      SelectLoop (Suc n) e w0 acceptFd writeFd readFd = Returns (close_fd wr writeFd))
   \<and> ((\<forall>t q. waitpid_rc e t q \<noteq> WaitFailed EINTR)
        \<and> empty_pipe (Suc n) e wa = Returns wb \<longrightarrow>
      (\<exists>r2 w2. WaitForAllProcesses (Suc n) e wa connectionFd = Returns (r2, w2)))"
proof (intro conjI impI)
  assume run: "WaitForAllProcesses fuel e w connectionFd = Returns (rc, w')"
  then obtain w1 where drained: "empty_pipe fuel e w = Returns w1"
    and loop: "wait_loop fuel e connectionFd 0 w1 = Returns (rc, w')"
    by (auto simp: WaitForAllProcesses_def split: result.splits)
  have w1: "children w1 = children w" "trace w1 = trace w"
    using empty_pipe_effect [OF drained] by simp_all
  have owed: "owed_terminations w1 w' 0 = owed_terminations w w' 0"
    and reaped: "\<And>j. newly_reaped w1 w' j = newly_reaped w w' j"
    by (simp_all add: owed_terminations_def newly_reaped_def w1)
  from wait_loop_pass [OF loop]
  have kids: "length (children w') = length (children w)"
    and each: "\<forall>j<length (children w).
            children w' ! j = (children w ! j)\<lparr>status := status (children w' ! j),
                                               terminated := terminated (children w' ! j)\<rparr>
          \<and> (terminated (children w ! j) \<longrightarrow> children w' ! j = children w ! j)
          \<and> (newly_reaped w w' j \<longrightarrow>
               (\<exists>t p. 0 < p \<and> waitpid_rc e t (pid (children w ! j))
                                 = WaitReaped p (status (children w' ! j))))"
    and pass: "\<exists>evs. trace w' = trace w @ evs
           \<and> (rc = 0 \<or> rc = -1)
           \<and> (connectionFd < 0 \<longrightarrow> evs = [] \<and> rc = 0)
           \<and> (rc = 0 \<and> 0 \<le> connectionFd \<longrightarrow>
                 List.map_filter termination_of evs = owed_terminations w w' 0
                 \<and> length evs = length (owed_terminations w w' 0))
           \<and> (rc = -1 \<longrightarrow>
                 owed_terminations w w' 0 \<noteq> []
                 \<and> List.map_filter termination_of evs = butlast (owed_terminations w w' 0))"
    unfolding owed reaped w1 by simp_all
  from pass obtain evs where tr: "trace w' = trace w @ evs"
    and rcs: "rc = 0 \<or> rc = -1"
    and quiet: "connectionFd < 0 \<longrightarrow> evs = [] \<and> rc = 0"
    and good: "rc = 0 \<and> 0 \<le> connectionFd \<longrightarrow>
                 List.map_filter termination_of evs = owed_terminations w w' 0
                 \<and> length evs = length (owed_terminations w w' 0)"
    and bad: "rc = -1 \<longrightarrow>
                 owed_terminations w w' 0 \<noteq> []
                 \<and> List.map_filter termination_of evs = butlast (owed_terminations w w' 0)"
    by blast
  from wait_loop_events [OF loop]
  obtain evs' where tr': "trace w' = trace w1 @ evs'"
    and shape': "\<forall>ev\<in>set evs'. \<exists>p a. ev = SendMsg connectionFd (Encoded (Termination p)) None a"
    by blast
  have "evs' = evs"
    using tr tr' w1 by simp
  with shape'
  have shape: "\<forall>ev\<in>set evs. \<exists>p a. ev = SendMsg connectionFd (Encoded (Termination p)) None a"
    by simp
  note frames = frames_of_terminations [OF shape]
  show "length (children w') = length (children w)"
    by (rule kids)
  show "\<forall>j<length (children w).
            children w' ! j = (children w ! j)\<lparr>status := status (children w' ! j),
                                               terminated := terminated (children w' ! j)\<rparr>
          \<and> (terminated (children w ! j) \<longrightarrow> children w' ! j = children w ! j)
          \<and> (newly_reaped w w' j \<longrightarrow>
               (\<exists>t p. 0 < p \<and> waitpid_rc e t (pid (children w ! j))
                                 = WaitReaped p (status (children w' ! j))))"
    by (rule each)
  show "\<exists>evs. trace w' = trace w @ evs
           \<and> (\<forall>ev\<in>set evs. \<exists>p a. ev = SendMsg connectionFd (Encoded (Termination p)) None a)
           \<and> (rc = 0 \<or> rc = -1)
           \<and> (connectionFd < 0 \<longrightarrow> evs = [] \<and> rc = 0)
           \<and> (rc = 0 \<and> 0 \<le> connectionFd \<longrightarrow>
                 List.map_filter termination_of evs = owed_terminations w w' 0
                 \<and> length evs = length (owed_terminations w w' 0)
                 \<and> List.map_filter sent_frame evs
                     = map (\<lambda>p. (connectionFd, Encoded (Termination p), None))
                         (owed_terminations w w' 0))
           \<and> (rc = -1 \<longrightarrow>
                 owed_terminations w w' 0 \<noteq> []
                 \<and> List.map_filter termination_of evs = butlast (owed_terminations w w' 0)
                 \<and> List.map_filter sent_frame evs
                     = map (\<lambda>p. (connectionFd, Encoded (Termination p), None))
                         (butlast (owed_terminations w w' 0)))"
    using tr shape rcs quiet good bad frames
    by (intro exI [of _ evs]) simp
next
  assume "i < length (children wa) \<and> \<not> terminated (children wa ! i)
        \<and> WaitPidNoHang fuel e wa (pid (children wa ! i)) = Returns (WaitReaped p st, wb)
        \<and> 0 < p \<and> wait_loop fuel e connectionFd i wa = Returns (rc2, wc)"
  then show "children wc ! i = (children wa ! i)\<lparr>status := st, terminated := True\<rparr>"
    using reaped_child_marked [of i wa fuel e p st wb connectionFd rc2 wc] by blast
next
  assume "select_rc e (tick w0) 0 \<and> \<not> select_rc e (tick w0) 2
        \<and> WaitForAllProcesses (Suc n) e (w0\<lparr>tick := Suc (tick w0)\<rparr>) writeFd = Returns (r, wr)
        \<and> r \<noteq> 0"
  then show "SelectLoop (Suc n) e w0 acceptFd writeFd readFd = Returns (close_fd wr writeFd)"
    by (simp add: Let_def)
next
  assume "select_rc e (tick w0) 0 \<and> select_rc e (tick w0) 2
        \<and> ReadAndHandleRequest e (w0\<lparr>tick := Suc (tick w0)\<rparr>) readFd writeFd = Returns (0, wq)
        \<and> WaitForAllProcesses (Suc n) e wq writeFd = Returns (r, wr)
        \<and> r \<noteq> 0"
  then show "SelectLoop (Suc n) e w0 acceptFd writeFd readFd = Returns (close_fd wr writeFd)"
    by (simp add: Let_def)
next
  assume "(\<forall>t q. waitpid_rc e t q \<noteq> WaitFailed EINTR)
        \<and> empty_pipe (Suc n) e wa = Returns wb"
  then show "\<exists>r2 w2. WaitForAllProcesses (Suc n) e wa connectionFd = Returns (r2, w2)"
    using wait_loop_returns [of e n connectionFd 0 wb]
    by (simp add: WaitForAllProcesses_def)
qed

text \<open>
  Three live children, 42 disowned; 41 and 42 have exited. With a client on
  descriptor 9, one pass reaps both, stores their statuses, and sends one
  Termination, for 41, on descriptor 9 with nothing attached.
\<close>

theorem WaitForAllProcesses_reaps_and_reports_witness:
  "WaitForAllProcesses 1
     (quiet_env\<lparr>waitpid_rc := (\<lambda>t q. if q = 41 then WaitReaped 41 0
                                      else if q = 42 then WaitReaped 42 9 else WaitNothing)\<rparr>)
     (example_world [example_child 41 False False 6 0, example_child 42 False True (-1) 0,
                     example_child 43 False False 8 0]) 9
   = Returns (0,
       \<lparr>children = [example_child 41 True False 6 0, example_child 42 True True (-1) 9,
                     example_child 43 False False 8 0],
        gPipe = (4, 5),
        trace = [SendMsg 9 (Encoded (Termination 41)) None (SendWrote 1)],
        tick = 6\<rparr>)
   \<and> List.map_filter sent_frame [SendMsg 9 (Encoded (Termination 41)) None (SendWrote 1)]
     = map (\<lambda>p. (9, Encoded (Termination p), None))
         (owed_terminations
            (example_world [example_child 41 False False 6 0, example_child 42 False True (-1) 0,
                            example_child 43 False False 8 0])
            \<lparr>children = [example_child 41 True False 6 0, example_child 42 True True (-1) 9,
                          example_child 43 False False 8 0],
             gPipe = (4, 5),
             trace = [SendMsg 9 (Encoded (Termination 41)) None (SendWrote 1)],
             tick = 6\<rparr> 0)"
proof -
  let ?e = "quiet_env\<lparr>waitpid_rc := (\<lambda>t q. if q = 41 then WaitReaped 41 0
                                      else if q = 42 then WaitReaped 42 9 else WaitNothing)\<rparr>"
  let ?w = "example_world [example_child 41 False False 6 0, example_child 42 False True (-1) 0,
                     example_child 43 False False 8 0]"
  let ?w' = "\<lparr>children = [example_child 41 True False 6 0, example_child 42 True True (-1) 9,
                     example_child 43 False False 8 0],
        gPipe = (4, 5),
        trace = [SendMsg 9 (Encoded (Termination 41)) None (SendWrote 1)],
        tick = 6\<rparr>"
  have run: "WaitForAllProcesses 1 ?e ?w 9 = Returns (0, ?w')"
    by (simp add: WaitForAllProcesses_def wait_loop.simps ReportTermination_def
        example_world_def example_child_def quiet_env_def Let_def
        iTermMultiServerProtocolEncodeMessageFromServer_def
        iTermFileDescriptorServerSendMessage_def)
  note pass = WaitForAllProcesses_reaps_and_reports
         [where fuel = 1 and e = ?e and w = ?w and connectionFd = 9 and rc = 0 and w' = ?w',
          THEN conjunct1, THEN mp, OF run]
  from pass obtain evs where "trace ?w' = trace ?w @ evs"
    and "(0::int) = 0 \<and> (0::int) \<le> 9 \<longrightarrow>
           List.map_filter termination_of evs = owed_terminations ?w ?w' 0
           \<and> length evs = length (owed_terminations ?w ?w' 0)
           \<and> List.map_filter sent_frame evs
                = map (\<lambda>p. (9, Encoded (Termination p), None)) (owed_terminations ?w ?w' 0)"
    by blast
  then have "List.map_filter sent_frame
               [SendMsg 9 (Encoded (Termination 41)) None (SendWrote 1)]
             = map (\<lambda>p. (9, Encoded (Termination p), None)) (owed_terminations ?w ?w' 0)"
    by (simp add: example_world_def)
  with run show ?thesis by simp
qed

end
